theory Spec2Isabelle
  imports Complex_Main "HOL-Library.Sublist" "HOL-Library.Code_Target_Numeral"
begin

section \<open>JavaScript values\<close>

text \<open>
  A JavaScript string is a sequence of UTF-16 code units. The regular expressions of
  \<^verbatim>\<open>convert.ts\<close> name code units beyond one byte (the en dash U+2013, the Unicode
  spaces of \<^verbatim>\<open>\s\<close>), so a string is modelled as a list of code units, each a natural
  number. \<open>str\<close> turns an ASCII literal into such a list.
\<close>

type_synonym jschar = nat
type_synonym jsstring = "jschar list"

definition str :: "string \<Rightarrow> jsstring" where
  "str s = map of_char s"

text \<open>\<^verbatim>\<open>a ?? b\<close>: the right operand only when the left one is undefined.\<close>

definition nullish :: "'a option \<Rightarrow> 'a option \<Rightarrow> 'a option" where
  "nullish a b = (case a of Some v \<Rightarrow> Some v | None \<Rightarrow> b)"

text \<open>\<^verbatim>\<open>a || b\<close> on values that are a string or undefined: the empty string is falsy.\<close>

definition js_or :: "jsstring option \<Rightarrow> jsstring option \<Rightarrow> jsstring option" where
  "js_or a b = (case a of Some v \<Rightarrow> (if v \<noteq> [] then Some v else b) | None \<Rightarrow> b)"

definition truthy :: "jsstring option \<Rightarrow> bool" where
  "truthy a = (case a of Some v \<Rightarrow> v \<noteq> [] | None \<Rightarrow> False)"

section \<open>Numbers\<close>

text \<open>
  A JavaScript number is NaN, an infinity, or a finite double, kept here as the rational it
  denotes. The two zeros are not told apart. \<open>to_double\<close> rounds a rational to the nearest
  double, ties to the even significand, as the conversion of a numeric literal and every
  arithmetic operation do: 53 significant bits, the least exponent that of the subnormal
  numbers (a unit of \<open>2\<^sup>-\<^sup>1\<^sup>0\<^sup>7\<^sup>4\<close>), and an infinity from \<open>2\<^sup>1\<^sup>0\<^sup>2\<^sup>4\<close> on.
\<close>

datatype jsnum = NaN | Num rat | Inf bool

definition isNaN :: "jsnum \<Rightarrow> bool" where
  "isNaN x = (x = NaN)"

text \<open>The number of binary digits of a natural number.\<close>

fun bits :: "nat \<Rightarrow> nat" where
  "bits n = (if n = 0 then 0 else Suc (bits (n div 2)))"

declare bits.simps [simp del]

text \<open>For \<open>0 < v\<close>, the exponent \<open>e\<close> with \<open>2\<^sup>e \<le> v < 2\<^sup>e\<^sup>+\<^sup>1\<close>.\<close>

definition floor_log2 :: "rat \<Rightarrow> int" where
  "floor_log2 v = (if 1 \<le> v then int (bits (nat \<lfloor>v\<rfloor>)) - 1
                   else - int (bits (nat (\<lceil>1 / v\<rceil> - 1))))"

definition pow2 :: "int \<Rightarrow> rat" where
  "pow2 k = (if 0 \<le> k then 2 ^ nat k else 1 / 2 ^ nat (- k))"

definition round_even :: "rat \<Rightarrow> int" where
  "round_even x =
     (let f = \<lfloor>x\<rfloor>; d = x - of_int f
      in if d < 1 / 2 then f else if 1 / 2 < d then f + 1 else if even f then f else f + 1)"

text \<open>\<open>a\<close> rounded to a multiple of \<open>2\<^sup>k\<close>, and the double of a sign and a rounded magnitude.\<close>

definition round_to :: "int \<Rightarrow> rat \<Rightarrow> rat" where
  "round_to k a = of_int (round_even (a / pow2 k)) * pow2 k"

definition signed :: "bool \<Rightarrow> rat \<Rightarrow> jsnum" where
  "signed neg r = (if 2 ^ 1024 \<le> r then Inf (\<not> neg) else Num (if neg then - r else r))"

definition to_double :: "rat \<Rightarrow> jsnum" where
  "to_double v =
     (if v = 0 then Num 0
      else signed (v < 0) (round_to (max (floor_log2 \<bar>v\<bar> - 52) (- 1074)) \<bar>v\<bar>))"

text \<open>\<^verbatim>\<open>a < b\<close>, false when an operand is NaN.\<close>

fun js_less :: "jsnum \<Rightarrow> jsnum \<Rightarrow> bool" where
  "js_less (Num a) (Num b) = (a < b)"
| "js_less (Num a) (Inf t) = t"
| "js_less (Inf s) (Num b) = (\<not> s)"
| "js_less (Inf s) (Inf t) = (\<not> s \<and> t)"
| "js_less NaN y = False"
| "js_less x NaN = False"

text \<open>\<^verbatim>\<open>Math.max(a, b)\<close> and \<^verbatim>\<open>Math.min(a, b)\<close>: NaN as soon as an argument is NaN.\<close>

definition js_max :: "jsnum \<Rightarrow> jsnum \<Rightarrow> jsnum" where
  "js_max a b = (if a = NaN \<or> b = NaN then NaN else if js_less a b then b else a)"

definition js_min :: "jsnum \<Rightarrow> jsnum \<Rightarrow> jsnum" where
  "js_min a b = (if a = NaN \<or> b = NaN then NaN else if js_less b a then b else a)"

text \<open>\<^verbatim>\<open>a + b\<close>, \<^verbatim>\<open>a - b\<close> and \<^verbatim>\<open>Math.max(0, x)\<close>.\<close>

fun js_plus :: "jsnum \<Rightarrow> jsnum \<Rightarrow> jsnum" where
  "js_plus NaN y = NaN"
| "js_plus x NaN = NaN"
| "js_plus (Num a) (Num b) = to_double (a + b)"
| "js_plus (Num a) (Inf s) = Inf s"
| "js_plus (Inf s) (Num b) = Inf s"
| "js_plus (Inf s) (Inf t) = (if s = t then Inf s else NaN)"

fun js_minus :: "jsnum \<Rightarrow> jsnum \<Rightarrow> jsnum" where
  "js_minus NaN y = NaN"
| "js_minus x NaN = NaN"
| "js_minus (Num a) (Num b) = to_double (a - b)"
| "js_minus (Num a) (Inf s) = Inf (\<not> s)"
| "js_minus (Inf s) (Num b) = Inf s"
| "js_minus (Inf s) (Inf t) = (if s = t then NaN else Inf s)"

fun max0 :: "jsnum \<Rightarrow> jsnum" where
  "max0 NaN = NaN"
| "max0 (Num a) = Num (max 0 a)"
| "max0 (Inf s) = (if s then Inf True else Num 0)"

text \<open>A number in a condition: NaN and zero are falsy.\<close>

definition num_truthy :: "jsnum option \<Rightarrow> bool" where
  "num_truthy x = (case x of Some v \<Rightarrow> v \<noteq> NaN \<and> v \<noteq> Num 0 | None \<Rightarrow> False)"

section \<open>Regular expressions and string methods\<close>

subsection \<open>Character classes\<close>

text \<open>
  \<^verbatim>\<open>\s\<close> (and the characters \<^verbatim>\<open>String.prototype.trim\<close> strips): white space and line
  terminators. \<^verbatim>\<open>.\<close>: anything but a line terminator. \<^verbatim>\<open>\w\<close> decides \<^verbatim>\<open>\b\<close>.
\<close>

definition is_space :: "jschar \<Rightarrow> bool" where
  "is_space c = (c \<in> {9, 10, 11, 12, 13, 32, 160, 5760, 8232, 8233, 8239, 8287, 12288, 65279}
                 \<or> (8192 \<le> c \<and> c \<le> 8202))"

definition is_dot :: "jschar \<Rightarrow> bool" where
  "is_dot c = (c \<notin> {10, 13, 8232, 8233})"

definition is_word :: "jschar \<Rightarrow> bool" where
  "is_word c = ((48 \<le> c \<and> c \<le> 57) \<or> (65 \<le> c \<and> c \<le> 90) \<or> (97 \<le> c \<and> c \<le> 122) \<or> c = 95)"

text \<open>\<^verbatim>\<open>[-\u2013]\<close>: the hyphen-minus or the en dash U+2013.\<close>

definition is_dash :: "jschar \<Rightarrow> bool" where
  "is_dash c = (c = 45 \<or> c = 8211)"

text \<open>
  Under the \<^verbatim>\<open>i\<close> flag (without \<^verbatim>\<open>u\<close>) an ASCII pattern character matches exactly the
  code units with the same ASCII upper case: a code unit of 128 or more never
  canonicalises to an ASCII one.
\<close>

definition ascii_upper :: "jschar \<Rightarrow> jschar" where
  "ascii_upper c = (if 97 \<le> c \<and> c \<le> 122 then c - 32 else c)"

subsection \<open>A backtracking matcher\<close>

text \<open>
  The constructs the patterns of \<^verbatim>\<open>convert.ts\<close> use: a character class, sequence,
  alternation, an optional group \<^verbatim>\<open>(?:r)?\<close>, a quantifier on a character class with a
  lower bound and no upper bound (greedy or lazy), a capture group, \<^verbatim>\<open>^\<close>, \<^verbatim>\<open>$\<close> and
  \<^verbatim>\<open>\b\<close>. \<open>rxm r s (i, c)\<close> lists every way \<open>r\<close> can match \<open>s\<close> from index \<open>i\<close>, as end
  index and captures, in the order in which a backtracking matcher tries them; the first
  element is the match that JavaScript reports.
\<close>

datatype rx =
    Cls "jschar \<Rightarrow> bool"
  | Eps
  | Seq rx rx
  | Alt rx rx
  | Opt rx
  | Rep bool nat "jschar \<Rightarrow> bool"
  | Grp nat rx
  | Bos
  | Eos
  | WordB

type_synonym caps = "(nat \<times> nat \<times> nat) list"
type_synonym mstate = "nat \<times> caps"

definition word_at :: "jsstring \<Rightarrow> int \<Rightarrow> bool" where
  "word_at s i = (0 \<le> i \<and> nat i < length s \<and> is_word (s ! nat i))"

definition run :: "(jschar \<Rightarrow> bool) \<Rightarrow> jsstring \<Rightarrow> nat \<Rightarrow> nat" where
  "run P s i = length (takeWhile P (drop i s))"

fun rxm :: "rx \<Rightarrow> jsstring \<Rightarrow> mstate \<Rightarrow> mstate list" where
  "rxm (Cls P) s (i, c) = (if i < length s \<and> P (s ! i) then [(Suc i, c)] else [])"
| "rxm Eps s st = [st]"
| "rxm (Seq a b) s st = concat (map (rxm b s) (rxm a s st))"
| "rxm (Alt a b) s st = rxm a s st @ rxm b s st"
| "rxm (Opt a) s st = rxm a s st @ [st]"
| "rxm (Rep greedy n P) s (i, c) =
     (let ends = map (\<lambda>k. (i + k, c)) [n ..< Suc (run P s i)]
      in if greedy then rev ends else ends)"
| "rxm (Grp g a) s (i, c) = map (\<lambda>(j, c'). (j, (g, i, j) # c')) (rxm a s (i, c))"
| "rxm Bos s (i, c) = (if i = 0 then [(i, c)] else [])"
| "rxm Eos s (i, c) = (if i = length s then [(i, c)] else [])"
| "rxm WordB s (i, c) =
     (if word_at s (int i - 1) \<noteq> word_at s (int i) then [(i, c)] else [])"

definition seqs :: "rx list \<Rightarrow> rx" where
  "seqs rs = foldr Seq rs Eps"

fun alts :: "rx list \<Rightarrow> rx" where
  "alts [] = Eps"
| "alts [r] = r"
| "alts (r # rs) = Alt r (alts rs)"

definition chr :: "char \<Rightarrow> rx" where
  "chr c = Cls (\<lambda>x. x = of_char c)"

definition lit_i :: "string \<Rightarrow> rx" where
  "lit_i w = seqs (map (\<lambda>c. Cls (\<lambda>x. ascii_upper x = ascii_upper (of_char c))) w)"

lemma rxm_mono: "(j, c') \<in> set (rxm r s (i, c)) \<Longrightarrow> i \<le> j"
proof (induction r arbitrary: i c j c')
  case (Seq a b)
  then show ?case by fastforce
next
  case (Rep g n P)
  then show ?case by (auto simp: Let_def split: if_splits)
qed (auto split: if_splits)

text \<open>\<^verbatim>\<open>RegExp.prototype.exec\<close> from \<^verbatim>\<open>lastIndex = i\<close>: the leftmost start that matches.\<close>

function rx_search :: "rx \<Rightarrow> jsstring \<Rightarrow> nat \<Rightarrow> (nat \<times> mstate) option" where
  "rx_search r s i =
     (if length s < i then None
      else case rxm r s (i, []) of
             [] \<Rightarrow> rx_search r s (Suc i)
           | m # _ \<Rightarrow> Some (i, m))"
  by pat_completeness auto
termination
  by (relation "measure (\<lambda>(r, s, i). Suc (length s) - i)") auto

declare rx_search.simps [simp del]

lemma rx_search_bounds:
  "rx_search r s i = Some (j, e, c) \<Longrightarrow> i \<le> j \<and> j \<le> length s \<and> j \<le> e"
proof (induction r s i rule: rx_search.induct)
  case (1 r s i)
  show ?case
  proof (cases "rxm r s (i, [])")
    case Nil
    then show ?thesis using 1 by (auto simp: rx_search.simps [of r s i] split: if_splits)
  next
    case (Cons m ms)
    then have "(e, c) \<in> set (rxm r s (i, []))" and "j = i" and "i \<le> length s"
      using 1(2) by (auto simp: rx_search.simps [of r s i] split: if_splits)
    then show ?thesis using rxm_mono by auto
  qed
qed

text \<open>
  \<^verbatim>\<open>s.replace(/r/g, rep)\<close> for a replacement text without \<^verbatim>\<open>$\<close>: \<open>src\<close> is the index up
  to which \<open>s\<close> has been copied, \<open>li\<close> is \<^verbatim>\<open>lastIndex\<close>, which steps over an empty match.
\<close>

function rx_replace_all :: "rx \<Rightarrow> jsstring \<Rightarrow> jsstring \<Rightarrow> nat \<Rightarrow> nat \<Rightarrow> jsstring" where
  "rx_replace_all r rep s src li =
     (case rx_search r s li of
        None \<Rightarrow> drop src s
      | Some (j, e, c) \<Rightarrow>
          take (j - src) (drop src s) @ rep
            @ rx_replace_all r rep s e (if e = j then Suc e else e))"
  by pat_completeness auto
termination
proof (relation "measure (\<lambda>(r, rep, s, src, li). Suc (length s) - li)", goal_cases)
  case 1
  then show ?case by simp
next
  case (2 r rep s src li x2 j y e c)
  then have "rx_search r s li = Some (j, e, c)" by simp
  from rx_search_bounds [OF this] show ?case by auto
qed

declare rx_replace_all.simps [simp del]

text \<open>\<^verbatim>\<open>s.replace(/r/, rep)\<close> without the \<^verbatim>\<open>g\<close> flag: the first match only.\<close>

definition rx_replace_first :: "rx \<Rightarrow> jsstring \<Rightarrow> jsstring \<Rightarrow> jsstring" where
  "rx_replace_first r rep s =
     (case rx_search r s 0 of None \<Rightarrow> s | Some (j, e, c) \<Rightarrow> take j s @ rep @ drop e s)"

text \<open>
  \<^verbatim>\<open>s.split(/r/)\<close> for a pattern without capture groups: \<open>p\<close> is the start of the current
  piece, \<open>q\<close> the index at which a match is tried; a match that ends at \<open>p\<close> is skipped.
\<close>

function rx_split_loop :: "rx \<Rightarrow> jsstring \<Rightarrow> nat \<Rightarrow> nat \<Rightarrow> jsstring list" where
  "rx_split_loop r s p q =
     (if length s \<le> q then [drop p s]
      else case rxm r s (q, []) of
             [] \<Rightarrow> rx_split_loop r s p (Suc q)
           | (e, c) # _ \<Rightarrow>
               if min e (length s) = p then rx_split_loop r s p (Suc q)
               else take (q - p) (drop p s)
                      # rx_split_loop r s (min e (length s)) (min e (length s)))"
  by pat_completeness auto
termination
proof (relation "measure (\<lambda>(r, s, p, q). 2 * (length s - q) + (if p = q then 0 else 1))",
       goal_cases)
  case 1
  then show ?case by simp
next
  case (2 r s p q)
  then show ?case by auto
next
  case (3 r s p q m ms e c)
  then show ?case by auto
next
  case (4 r s p q m ms e c)
  then have "(e, c) \<in> set (rxm r s (q, []))" by simp
  then have "q \<le> e" using rxm_mono by blast
  then show ?case using 4 by (auto simp: min_def split: if_splits)
qed

declare rx_split_loop.simps [simp del]

definition rx_split :: "rx \<Rightarrow> jsstring \<Rightarrow> jsstring list" where
  "rx_split r s =
     (if s = [] then (if rxm r s (0, []) \<noteq> [] then [] else [s])
      else rx_split_loop r s 0 0)"

definition js_trim :: "jsstring \<Rightarrow> jsstring" where
  "js_trim s = rev (dropWhile is_space (rev (dropWhile is_space s)))"

text \<open>\<^verbatim>\<open>m[g]\<close> of a match array: the text of capture group \<open>g\<close>.\<close>

definition group :: "caps \<Rightarrow> nat \<Rightarrow> jsstring \<Rightarrow> jsstring" where
  "group c g s = (case List.find (\<lambda>(g', a, b). g' = g) c of
                    Some (g', a, b) \<Rightarrow> take (b - a) (drop a s) | None \<Rightarrow> [])"

text \<open>
  \<^verbatim>\<open>s.match(/r/)\<close> for a pattern whose two capture groups take part in every match:
  \<^verbatim>\<open>null\<close>, or \<^verbatim>\<open>m[1]\<close> and \<^verbatim>\<open>m[2]\<close>.
\<close>

definition js_match2 :: "rx \<Rightarrow> jsstring \<Rightarrow> (jsstring \<times> jsstring) option" where
  "js_match2 r s = (case rx_search r s 0 of None \<Rightarrow> None
                    | Some (j, e, c) \<Rightarrow> Some (group c 1 s, group c 2 s))"

section \<open>Filename heuristic (\<^verbatim>\<open>detectFromFilename\<close>, lines 76-113)\<close>

text \<open>\<^verbatim>\<open>/\s*(?:\(|\[|\{).*?(?:\)|\]|\})\s*/g\<close>\<close>

definition rx_brackets :: rx where
  "rx_brackets = seqs [Rep True 0 is_space,
                       alts [chr CHR ''('', chr CHR ''['', chr CHR ''{''],
                       Rep False 0 is_dot,
                       alts [chr CHR '')'', chr CHR '']'', chr CHR ''}''],
                       Rep True 0 is_space]"

text \<open>
  \<^verbatim>\<open>/\b(official\s*video|official\s*audio|lyrics|audio\s*only|hd|4k|remaster(?:ed)?|mv|clip)\b/gi\<close>
\<close>

definition rx_noise :: rx where
  "rx_noise = seqs [WordB,
      Grp 1 (alts [seqs [lit_i ''official'', Rep True 0 is_space, lit_i ''video''],
                   seqs [lit_i ''official'', Rep True 0 is_space, lit_i ''audio''],
                   lit_i ''lyrics'',
                   seqs [lit_i ''audio'', Rep True 0 is_space, lit_i ''only''],
                   lit_i ''hd'',
                   lit_i ''4k'',
                   seqs [lit_i ''remaster'', Opt (lit_i ''ed'')],
                   lit_i ''mv'',
                   lit_i ''clip'']),
      WordB]"

text \<open>\<^verbatim>\<open>/\s{2,}/g\<close>\<close>

definition rx_spaces2 :: rx where
  "rx_spaces2 = Rep True 2 is_space"

definition scrub :: "jsstring \<Rightarrow> jsstring" where
  "scrub s = js_trim (rx_replace_all rx_spaces2 (str '' '')
                (rx_replace_all rx_noise []
                   (rx_replace_all rx_brackets (str '' '') s 0 0) 0 0) 0 0)"

text \<open>\<^verbatim>\<open>/^(.+?)\s*[-\u2013]\s*(.+)$/\<close>\<close>

definition rx_artist_title :: rx where
  "rx_artist_title = seqs [Bos, Grp 1 (Rep False 1 is_dot), Rep True 0 is_space, Cls is_dash,
                           Rep True 0 is_space, Grp 2 (Rep True 1 is_dot), Eos]"

text \<open>\<^verbatim>\<open>/^(.+?)\s+by\s+(.+)$/i\<close>\<close>

definition rx_title_by_artist :: rx where
  "rx_title_by_artist = seqs [Bos, Grp 1 (Rep False 1 is_dot), Rep True 1 is_space,
                              lit_i ''by'', Rep True 1 is_space, Grp 2 (Rep True 1 is_dot), Eos]"

text \<open>\<^verbatim>\<open>/^(.+?)\s*_\s*(.+)$/\<close>\<close>

definition rx_artist_underscore :: rx where
  "rx_artist_underscore = seqs [Bos, Grp 1 (Rep False 1 is_dot), Rep True 0 is_space,
                                chr CHR ''_'', Rep True 0 is_space,
                                Grp 2 (Rep True 1 is_dot), Eos]"

text \<open>\<^verbatim>\<open>/\s*[-\u2013]\s*/\<close>\<close>

definition rx_dash :: rx where
  "rx_dash = seqs [Rep True 0 is_space, Cls is_dash, Rep True 0 is_space]"

record guess =
  artist :: "jsstring option"
  title :: "jsstring option"

text \<open>The returned \<^verbatim>\<open>{}\<close>.\<close>

definition no_guess :: guess where
  "no_guess = \<lparr>artist = None, title = None\<rparr>"

text \<open>\<^verbatim>\<open>if (artist && title) return { artist, title }\<close>: \<open>None\<close> when control falls through.\<close>

definition return_both :: "jsstring \<Rightarrow> jsstring \<Rightarrow> guess option" where
  "return_both a t = (if a \<noteq> [] \<and> t \<noteq> [] then Some \<lparr>artist = Some a, title = Some t\<rparr> else None)"

definition detectFromFilename :: "jsstring \<Rightarrow> guess" where
  "detectFromFilename fileBase =
    (case (case js_match2 rx_artist_title fileBase of
             Some (m1, m2) \<Rightarrow> return_both (scrub m1) (scrub m2) | None \<Rightarrow> None) of
       Some g \<Rightarrow> g
     | None \<Rightarrow>
    (case (case js_match2 rx_title_by_artist fileBase of
             Some (m1, m2) \<Rightarrow> return_both (scrub m2) (scrub m1) | None \<Rightarrow> None) of
       Some g \<Rightarrow> g
     | None \<Rightarrow>
    (case (case js_match2 rx_artist_underscore fileBase of
             Some (m1, m2) \<Rightarrow> return_both (scrub m1) (scrub m2) | None \<Rightarrow> None) of
       Some g \<Rightarrow> g
     | None \<Rightarrow>
    (case (case rx_split rx_dash fileBase of
             [p0, p1] \<Rightarrow> return_both (scrub p0) (scrub p1) | _ \<Rightarrow> None) of
       Some g \<Rightarrow> g
     | None \<Rightarrow> no_guess))))"



section \<open>Output naming (\<^verbatim>\<open>convertPaths\<close>, lines 171-183)\<close>

subsection \<open>\<^verbatim>\<open>String.prototype.replace\<close> with a string pattern\<close>

text \<open>
  \<open>split_first pat s\<close> is \<^verbatim>\<open>s.indexOf(pat)\<close>: the text before and after the first
  occurrence of \<open>pat\<close>, or \<open>None\<close> when there is none.
\<close>

fun split_first :: "jsstring \<Rightarrow> jsstring \<Rightarrow> (jsstring \<times> jsstring) option" where
  "split_first pat [] = (if pat = [] then Some ([], []) else None)"
| "split_first pat (c # cs) =
     (if prefix pat (c # cs) then Some ([], drop (length pat) (c # cs))
      else map_option (\<lambda>(a, b). (c # a, b)) (split_first pat cs))"

text \<open>
  The replacement text is expanded as \<^verbatim>\<open>GetSubstitution\<close> does: \<^verbatim>\<open>$$\<close> is a dollar sign,
  \<^verbatim>\<open>$&\<close> the matched text, \<^verbatim>\<open>$`\<close> the text before the match, \<^verbatim>\<open>$'\<close> the text after it.
  A string pattern has no capture groups, so \<^verbatim>\<open>$1\<close> and \<^verbatim>\<open>$<\<close> stay as they are.
\<close>

fun get_subst :: "jsstring \<Rightarrow> jsstring \<Rightarrow> jsstring \<Rightarrow> jsstring \<Rightarrow> jsstring" where
  "get_subst m b a [] = []"
| "get_subst m b a [c] = [c]"
| "get_subst m b a (c # d # r) =
     (if c = 36 \<and> d = 36 then 36 # get_subst m b a r
      else if c = 36 \<and> d = 38 then m @ get_subst m b a r
      else if c = 36 \<and> d = 96 then b @ get_subst m b a r
      else if c = 36 \<and> d = 39 then a @ get_subst m b a r
      else c # get_subst m b a (d # r))"

definition js_replace :: "jsstring \<Rightarrow> jsstring \<Rightarrow> jsstring \<Rightarrow> jsstring" where
  "js_replace pat rep s =
     (case split_first pat s of
        None \<Rightarrow> s
      | Some (b, a) \<Rightarrow> b @ get_subst pat b a rep @ a)"

subsection \<open>Template expansion and output name\<close>

text \<open>
  \<open>ext\<close> is \<^verbatim>\<open>extname(input)\<close>. \<^verbatim>\<open>opts.template || '{basename}.mp3'\<close> takes the default for
  an absent or empty template. \<open>render\<close> is \<^verbatim>\<open>String(x)\<close> for a number \<open>x\<close>, a built-in that
  the model takes as a parameter.
\<close>

text \<open>\<^verbatim>\<open>/^\./\<close>\<close>

definition rx_leading_dot :: rx where
  "rx_leading_dot = seqs [Bos, chr CHR ''.'']"

text \<open>\<^verbatim>\<open>/\.[^\.]+$/\<close>\<close>

definition rx_extension :: rx where
  "rx_extension = seqs [chr CHR ''.'', Rep True 1 (\<lambda>c. c \<noteq> 46), Eos]"

definition template_or_default :: "jsstring option \<Rightarrow> jsstring" where
  "template_or_default template = (if truthy template then the template else str ''{basename}.mp3'')"

definition expandTemplate ::
  "(jsnum \<Rightarrow> jsstring) \<Rightarrow> jsstring \<Rightarrow> jsstring \<Rightarrow> jsstring \<Rightarrow> jsnum option \<Rightarrow> jsnum option
     \<Rightarrow> jsstring" where
  "expandTemplate render template base ext bitrateKbps vbrLevel =
     js_replace (str ''{vbr}'') (case vbrLevel of Some v \<Rightarrow> render v | None \<Rightarrow> [])
       (js_replace (str ''{bitrate}'') (case bitrateKbps of Some b \<Rightarrow> render b | None \<Rightarrow> [])
          (js_replace (str ''{ext}'') (rx_replace_first rx_leading_dot [] ext)
             (js_replace (str ''{basename}'') base template)))"

text \<open>\<^verbatim>\<open>extOut\<close>: \<^verbatim>\<open>.mp3\<close> unless \<^verbatim>\<open>opts.format\<close> is a non-empty string.\<close>

definition extOut :: "jsstring option \<Rightarrow> jsstring" where
  "extOut format =
     (if truthy format
      then (if the format = str ''aac'' then str ''.m4a'' else 46 # the format)
      else str ''.mp3'')"

text \<open>The file name joined to \<^verbatim>\<open>outDir\<close>: \<^verbatim>\<open>baseName + extOut\<close>.\<close>

definition outputFileName ::
  "(jsnum \<Rightarrow> jsstring) \<Rightarrow> jsstring option \<Rightarrow> jsstring option \<Rightarrow> jsstring \<Rightarrow> jsstring
     \<Rightarrow> jsnum option \<Rightarrow> jsnum option \<Rightarrow> jsstring" where
  "outputFileName render template format base ext bitrateKbps vbrLevel =
     (let tpl = expandTemplate render (template_or_default template) base ext bitrateKbps
                  vbrLevel;
          baseName = rx_replace_first rx_extension [] tpl
      in baseName @ extOut format)"

text \<open>The four tokens, and the number of places at which a token occurs in a string.\<close>

definition tokens :: "jsstring list" where
  "tokens = map str [''{basename}'', ''{ext}'', ''{bitrate}'', ''{vbr}'']"

fun occurrences :: "jsstring \<Rightarrow> jsstring \<Rightarrow> nat" where
  "occurrences tok [] = 0"
| "occurrences tok (c # cs) = (if prefix tok (c # cs) then 1 else 0) + occurrences tok cs"

text \<open>A token: an opening brace, a body without braces, a closing brace.\<close>

definition is_token :: "jsstring \<Rightarrow> bool" where
  "is_token tok =
     (case tok of
        [] \<Rightarrow> False
      | c # r \<Rightarrow> c = 123 \<and> r \<noteq> [] \<and> last r = 125
                 \<and> 123 \<notin> set (butlast r) \<and> 125 \<notin> set (butlast r))"

section \<open>Concurrency bound (\<^verbatim>\<open>convertPaths\<close>, lines 122-125)\<close>

datatype throttle = Off | Medium | Low

text \<open>
  \<^verbatim>\<open>Math.max(1, Math.min(64, opts.concurrency ?? Math.max(1, Math.floor(os.cpus().length / 2))))\<close>.
  \<open>concurrency\<close> is any number the caller passes (the command line passes the result of
  \<^verbatim>\<open>parseInt\<close>, NaN for a text that is no number); \<open>cpus\<close> is \<^verbatim>\<open>os.cpus().length\<close>.
\<close>

definition baseConc :: "jsnum option \<Rightarrow> nat \<Rightarrow> jsnum" where
  "baseConc concurrency cpus =
     js_max (Num 1)
       (js_min (Num 64)
          (case concurrency of
             Some c \<Rightarrow> c
           | None \<Rightarrow> js_max (Num 1) (Num (of_nat (cpus div 2)))))"

definition effectiveConcurrency :: "jsnum option \<Rightarrow> throttle option \<Rightarrow> nat \<Rightarrow> jsnum" where
  "effectiveConcurrency concurrency thr cpus =
     (let c = baseConc concurrency cpus in
      if thr = Some Low then js_min c (Num 1)
      else if thr = Some Medium then js_min c (Num 2)
      else c)"

text \<open>
  The bound as the specification words it: a clamp to a range, then a cap by tier. A clamp
  yields a member of the range; NaN, which compares with nothing, has no clamp.
\<close>

fun clamp :: "jsnum \<Rightarrow> rat \<Rightarrow> rat \<Rightarrow> rat option" where
  "clamp (Num x) lo hi = Some (if x < lo then lo else if hi < x then hi else x)"
| "clamp (Inf s) lo hi = Some (if s then hi else lo)"
| "clamp NaN lo hi = None"

fun cap :: "throttle option \<Rightarrow> rat \<Rightarrow> rat" where
  "cap (Some Low) bound = 1"
| "cap (Some Medium) bound = (if 2 < bound then 2 else bound)"
| "cap (Some Off) bound = bound"
| "cap None bound = bound"

definition spec_concurrency :: "jsnum option \<Rightarrow> throttle option \<Rightarrow> nat \<Rightarrow> rat option" where
  "spec_concurrency concurrency thr cpus =
     map_option (cap thr)
       (clamp (case concurrency of Some c \<Rightarrow> c | None \<Rightarrow> Num (of_nat (cpus div 2))) 1 64)"

section \<open>Metadata merge (\<^verbatim>\<open>convertPaths\<close>, lines 259-277)\<close>

text \<open>
  Tag objects (\<^verbatim>\<open>autoTags\<close>, \<^verbatim>\<open>fileNameTags\<close>, \<^verbatim>\<open>opts.metadata\<close>, \<^verbatim>\<open>merged\<close>) are read and
  written by property name, so each is a map from property name to string.
\<close>

type_synonym tags = "jsstring \<rightharpoonup> jsstring"

definition keys :: "jsstring list" where
  "keys = map str [''title'', ''artist'', ''album'', ''genre'', ''date'', ''track'', ''comment'']"

text \<open>
  The object literal \<^verbatim>\<open>detected\<close>, read as \<^verbatim>\<open>detected[k]\<close>. A chain of \<^verbatim>\<open>||\<close> yields its
  first truthy operand, else its last operand.
\<close>

definition detected :: "tags \<Rightarrow> tags \<Rightarrow> tags" where
  "detected autoTags fileNameTags k =
     (if k = str ''title'' then
        js_or (autoTags (str ''title'')) (js_or (autoTags (str ''itl''))
          (js_or (autoTags (str ''tracktitle'')) (fileNameTags (str ''title''))))
      else if k = str ''artist'' then
        js_or (autoTags (str ''artist'')) (js_or (autoTags (str ''album_artist''))
          (js_or (autoTags (str ''author'')) (fileNameTags (str ''artist''))))
      else if k = str ''album'' then autoTags (str ''album'')
      else if k = str ''genre'' then autoTags (str ''genre'')
      else if k = str ''date'' then js_or (autoTags (str ''date'')) (autoTags (str ''year''))
      else if k = str ''track'' then autoTags (str ''track'')
      else if k = str ''comment'' then
        js_or (autoTags (str ''comment'')) (autoTags (str ''description''))
      else None)"

text \<open>
  The immediately invoked function of lines 259-277: \<open>manual\<close> is
  \<^verbatim>\<open>opts.metadata || {}\<close>, the loop assigns \<^verbatim>\<open>merged[k]\<close> for each key in turn, and
  \<^verbatim>\<open>merged.coverImagePath\<close> is set last. An assignment of undefined leaves the property
  read as undefined, which is the map without the key.
\<close>

fun assignEach :: "(jsstring \<Rightarrow> jsstring option) \<Rightarrow> jsstring list \<Rightarrow> tags \<Rightarrow> tags" where
  "assignEach f [] merged = merged"
| "assignEach f (k # ks) merged = assignEach f ks (merged(k := f k))"

definition mergeMetadata ::
  "bool \<Rightarrow> tags \<Rightarrow> tags \<Rightarrow> tags option \<Rightarrow> jsstring option \<Rightarrow> tags" where
  "mergeMetadata preferDetected autoTags fileNameTags metadata coverPath =
     (let det = detected autoTags fileNameTags;
          manual = (case metadata of Some m \<Rightarrow> m | None \<Rightarrow> Map.empty);
          merged = assignEach (\<lambda>k. if preferDetected then nullish (det k) (manual k)
                                    else nullish (manual k) (det k)) keys Map.empty
      in merged(str ''coverImagePath'' := coverPath))"

section \<open>Trim range (\<^verbatim>\<open>parseTrim\<close>, lines 65-74)\<close>

subsection \<open>\<^verbatim>\<open>Number(string)\<close>\<close>

text \<open>
  The text is trimmed; the empty text is zero; a literal with a radix prefix has no sign; a
  decimal literal has an optional sign, then \<^verbatim>\<open>Infinity\<close> or digits with an optional
  fraction and exponent. The mathematical value of the literal is rounded to a double.
  Anything else is NaN.
\<close>

definition is_digit :: "jschar \<Rightarrow> bool" where
  "is_digit c = (48 \<le> c \<and> c \<le> 57)"

text \<open>The value of a digit of a hexadecimal, octal or binary literal, if it is one.\<close>

definition digit_value :: "nat \<Rightarrow> jschar \<Rightarrow> nat option" where
  "digit_value radix c =
     (let v = (if 48 \<le> c \<and> c \<le> 57 then Some (c - 48)
               else if 97 \<le> c \<and> c \<le> 102 then Some (c - 87)
               else if 65 \<le> c \<and> c \<le> 70 then Some (c - 55)
               else None)
      in case v of Some d \<Rightarrow> (if d < radix then Some d else None) | None \<Rightarrow> None)"

fun radix_value :: "nat \<Rightarrow> nat \<Rightarrow> jsstring \<Rightarrow> nat option" where
  "radix_value radix acc [] = Some acc"
| "radix_value radix acc (c # cs) =
     (case digit_value radix c of
        Some d \<Rightarrow> radix_value radix (radix * acc + d) cs
      | None \<Rightarrow> None)"

text \<open>\<^verbatim>\<open>0x\<close>, \<^verbatim>\<open>0o\<close> and \<^verbatim>\<open>0b\<close> literals: no sign, at least one digit.\<close>

definition radix_of :: "jschar \<Rightarrow> nat option" where
  "radix_of c = (if c = 120 \<or> c = 88 then Some 16
                 else if c = 111 \<or> c = 79 then Some 8
                 else if c = 98 \<or> c = 66 then Some 2
                 else None)"

text \<open>An exponent part after the mantissa: nothing, or \<^verbatim>\<open>e\<close>, an optional sign and digits.\<close>

definition exponent_part :: "jsstring \<Rightarrow> int option" where
  "exponent_part r =
     (case r of
        [] \<Rightarrow> Some 0
      | c # r' \<Rightarrow>
          if c = 101 \<or> c = 69 then
            (let (sgn, ds) = (case r' of
                                [] \<Rightarrow> (1, [])
                              | d # r'' \<Rightarrow> if d = 43 then (1, r'')
                                            else if d = 45 then (-1, r'') else (1, r'))
             in if ds \<noteq> [] \<and> list_all is_digit ds
                then map_option (\<lambda>n. sgn * int n) (radix_value 10 0 ds)
                else None)
          else None)"

text \<open>
  \<^verbatim>\<open>StrUnsignedDecimalLiteral\<close> other than \<^verbatim>\<open>Infinity\<close>: digits, an optional fraction, an
  optional exponent, with a digit before or after the point.
\<close>

definition unsigned_decimal :: "jsstring \<Rightarrow> rat option" where
  "unsigned_decimal body =
     (let ip = takeWhile is_digit body;
          r1 = dropWhile is_digit body;
          (fp, r2) = (case r1 of
                        c # r \<Rightarrow> if c = 46 then (takeWhile is_digit r, dropWhile is_digit r)
                                 else ([], r1)
                      | [] \<Rightarrow> ([], r1))
      in if ip = [] \<and> fp = [] then None
         else case (radix_value 10 0 (ip @ fp), exponent_part r2) of
                (Some m, Some e) \<Rightarrow>
                  (let x = e - int (length fp)
                   in Some (if 0 \<le> x then of_nat m * 10 ^ nat x
                            else of_nat m / 10 ^ nat (- x)))
              | _ \<Rightarrow> None)"

definition js_Number :: "jsstring \<Rightarrow> jsnum" where
  "js_Number s =
     (let t = js_trim s in
      case t of
        [] \<Rightarrow> Num 0
      | c # r \<Rightarrow>
          (case (if c = 48 then (case r of x # ds \<Rightarrow> map_option (\<lambda>b. (b, ds)) (radix_of x)
                                          | [] \<Rightarrow> None)
                 else None) of
             Some (radix, ds) \<Rightarrow>
               (if ds = [] then NaN
                else case radix_value radix 0 ds of Some n \<Rightarrow> to_double (of_nat n) | None \<Rightarrow> NaN)
           | None \<Rightarrow>
               (let (neg, body) = (if c = 43 then (False, r)
                                   else if c = 45 then (True, r) else (False, t))
                in if body = str ''Infinity'' then Inf (\<not> neg)
                   else case unsigned_decimal body of
                          Some v \<Rightarrow> to_double (if neg then - v else v)
                        | None \<Rightarrow> NaN)))"

subsection \<open>\<^verbatim>\<open>parseTrim\<close>\<close>

text \<open>\<^verbatim>\<open>s.split(c)\<close> for a separator of one code unit.\<close>

fun split_char :: "jschar \<Rightarrow> jsstring \<Rightarrow> jsstring list" where
  "split_char c [] = [] # []"
| "split_char c (x # xs) =
     (if x = c then [] # split_char c xs
      else case split_char c xs of
             p # ps \<Rightarrow> (x # p) # ps
           | [] \<Rightarrow> [x] # [])"

datatype js_error = Error jsstring | TypeError jsstring

text \<open>\<^verbatim>\<open>e.message\<close>, and \<^verbatim>\<open>String(e)\<close> for an error whose message is empty.\<close>

fun message :: "js_error \<Rightarrow> jsstring" where
  "message (Error m) = m"
| "message (TypeError m) = m"

fun error_name :: "js_error \<Rightarrow> jsstring" where
  "error_name (Error m) = str ''Error''"
| "error_name (TypeError m) = str ''TypeError''"

record trimRange =
  trim_start :: "jsnum option"
  trim_end :: "jsnum option"

text \<open>
  \<^verbatim>\<open>const [s, e] = trim.split('-')\<close> binds the first two pieces; \<open>e\<close> is undefined when there
  is one piece. \<^verbatim>\<open>Number.isNaN(undefined)\<close> is false.
\<close>

definition parseTrim :: "jsstring option \<Rightarrow> js_error + trimRange" where
  "parseTrim trim =
     (if \<not> truthy trim then Inr \<lparr>trim_start = None, trim_end = None\<rparr>
      else
        let parts = split_char 45 (the trim);
            s = (case parts of x # _ \<Rightarrow> Some x | [] \<Rightarrow> None);
            e = (case parts of _ # y # _ \<Rightarrow> Some y | _ \<Rightarrow> None);
            start = (if truthy s then Some (js_Number (the s)) else None);
            end' = (if truthy e then Some (js_Number (the e)) else None)
        in if (case start of Some x \<Rightarrow> isNaN x | None \<Rightarrow> False)
              \<or> (truthy e \<and> (case end' of Some x \<Rightarrow> isNaN x | None \<Rightarrow> False))
           then Inl (Error (str ''Invalid --trim format. Use start-end (seconds) or start''))
           else Inr \<lparr>trim_start = start, trim_end = end'\<rparr>)"

text \<open>
  A component of a trim string is non-numeric when it is not empty and \<^verbatim>\<open>Number\<close> gives NaN
  for it. \<open>component t i\<close> is the \<open>i\<close>-th piece of \<open>t\<close> between hyphens, if there is one.
\<close>

definition non_numeric :: "jsstring option \<Rightarrow> bool" where
  "non_numeric p = (case p of Some x \<Rightarrow> x \<noteq> [] \<and> js_Number x = NaN | None \<Rightarrow> False)"

definition component :: "jsstring \<Rightarrow> nat \<Rightarrow> jsstring option" where
  "component t i = (if i < length (split_char 45 t) then Some (split_char 45 t ! i) else None)"

definition trimError :: js_error where
  "trimError = Error (str ''Invalid --trim format. Use start-end (seconds) or start'')"

section \<open>The file system and the outside world\<close>

type_synonym path = jsstring

record regular_file =
  content :: "nat list"
  mtime :: nat

record filesystem =
  files :: "path \<rightharpoonup> regular_file"
  dirs :: "path set"

text \<open>
  The command that the fluent builder has accumulated when it is run.
\<close>

record ffcommand =
  cmd_inputs :: "path list"
  cmd_startTime :: "jsnum option"
  cmd_duration :: "jsnum option"
  cmd_audioCodec :: "jsstring option"
  cmd_audioQuality :: "jsnum option"
  cmd_audioBitrate :: "jsstring option"
  cmd_audioFrequency :: "jsnum option"
  cmd_audioChannels :: "jsnum option"
  cmd_audioFilters :: "jsstring list"
  cmd_outputOptions :: "jsstring list"
  cmd_output :: "path option"

definition ffmpeg :: ffcommand where
  "ffmpeg = \<lparr>cmd_inputs = [], cmd_startTime = None, cmd_duration = None, cmd_audioCodec = None,
             cmd_audioQuality = None, cmd_audioBitrate = None, cmd_audioFrequency = None,
             cmd_audioChannels = None, cmd_audioFilters = [], cmd_outputOptions = [],
             cmd_output = None\<rparr>"

text \<open>
  What one run of the engine does: the \<^verbatim>\<open>percent\<close> of each progress event (undefined when
  the event carries none), the message of the \<^verbatim>\<open>error\<close> event if the run fails, and the
  file system it leaves.
\<close>

record run_result =
  run_progress :: "rat option list"
  run_error :: "jsstring option"
  run_fs :: filesystem

text \<open>
  Everything \<^verbatim>\<open>convert.ts\<close> and \<^verbatim>\<open>ffmpeg.ts\<close> call but do not define: the functions of
  \<^verbatim>\<open>node:path\<close>, \<^verbatim>\<open>os\<close>, \<^verbatim>\<open>crypto\<close>, \<^verbatim>\<open>fast-glob\<close>, JavaScript built-ins, and the
  transcoding engine. An engine call also receives the number of engine calls made before
  it, so that a retry may see a different outcome.
  \<^item> \<open>execShort p\<close>: the output of the \<^verbatim>\<open>cmd.exe\<close> short-path command, \<open>None\<close> if it throws;
  \<^item> \<open>resolve a b\<close> is \<^verbatim>\<open>path.resolve(a, b)\<close>; \<^verbatim>\<open>path.resolve(p)\<close> is \<open>resolve cwd p\<close>;
  \<^item> \<open>numberToString x\<close> is \<^verbatim>\<open>String(x)\<close> for a number \<open>x\<close>;
  \<^item> \<open>regexTest pattern base\<close>: \<^verbatim>\<open>new RegExp(pattern, 'i').test(base)\<close>, \<open>None\<close> if the
    constructor throws;
  \<^item> \<open>randomHex n\<close>: \<^verbatim>\<open>randomBytes(6).toString('hex')\<close> at its \<open>n\<close>-th call;
  \<^item> \<open>probeTags\<close>: the tags and the index of the attached picture, or the rejection;
  \<^item> \<open>extractAttachedPicture\<close>, \<open>extractFrame\<close>: whether the call resolved, and the file
    system after it;
  \<^item> \<open>loudnessPass\<close>: the lines written to stderr by the measuring run and the message of
    its \<^verbatim>\<open>error\<close> event, if any;
  \<^item> \<open>ffmpegRun\<close>: the encoding run of a command.
\<close>

record world =
  win32 :: bool
  execShort :: "path \<Rightarrow> jsstring option"
  cwd :: path
  cpus :: nat
  resolve :: "path \<Rightarrow> path \<Rightarrow> path"
  join :: "path \<Rightarrow> path \<Rightarrow> path"
  basename :: "path \<Rightarrow> jsstring \<Rightarrow> jsstring"
  extname :: "path \<Rightarrow> jsstring"
  dirname :: "path \<Rightarrow> path"
  relative :: "path \<Rightarrow> path \<Rightarrow> path"
  toLowerCase :: "jsstring \<Rightarrow> jsstring"
  numberToString :: "jsnum \<Rightarrow> jsstring"
  JSON_parse :: "jsstring \<Rightarrow> tags option"
  regexTest :: "jsstring \<Rightarrow> jsstring \<Rightarrow> bool option"
  randomHex :: "nat \<Rightarrow> jsstring"
  fast_glob :: "jsstring list \<Rightarrow> filesystem \<Rightarrow> path list"
  probeTags :: "path \<Rightarrow> nat \<Rightarrow> filesystem \<Rightarrow> js_error + (tags \<times> nat option)"
  extractAttachedPicture :: "path \<Rightarrow> nat \<Rightarrow> path \<Rightarrow> nat \<Rightarrow> filesystem \<Rightarrow> bool \<times> filesystem"
  extractFrame :: "path \<Rightarrow> jsnum \<Rightarrow> path \<Rightarrow> nat \<Rightarrow> filesystem \<Rightarrow> bool \<times> filesystem"
  loudnessPass :: "path \<Rightarrow> nat \<Rightarrow> filesystem \<Rightarrow> jsstring list \<times> jsstring option"
  ffmpegRun :: "ffcommand \<Rightarrow> nat \<Rightarrow> filesystem \<Rightarrow> run_result"

text \<open>
  The file map is keyed by absolute path. A path handed to \<^verbatim>\<open>node:fs\<close> is looked up where
  the operating system finds it: a path that is not absolute is taken relative to the
  working directory, as \<^verbatim>\<open>path.resolve\<close> does.
\<close>

definition locate :: "world \<Rightarrow> path \<Rightarrow> path" where
  "locate W p = resolve W (cwd W) p"

definition existsSync :: "world \<Rightarrow> filesystem \<Rightarrow> path \<Rightarrow> bool" where
  "existsSync W fsys p = (files fsys (locate W p) \<noteq> None \<or> locate W p \<in> dirs fsys)"

text \<open>\<^verbatim>\<open>fs.statSync(p).isFile()\<close> for a path that exists.\<close>

definition isFile :: "world \<Rightarrow> filesystem \<Rightarrow> path \<Rightarrow> bool" where
  "isFile W fsys p = (files fsys (locate W p) \<noteq> None)"

text \<open>
  \<^verbatim>\<open>fs.mkdirSync(d, { recursive: true })\<close> and \<^verbatim>\<open>fs.unlinkSync(p)\<close> inside
  \<^verbatim>\<open>try { ... } catch {}\<close>. Only the directory named is recorded; failures of the
  operating system (permissions, a full disk) are outside the model.
\<close>

definition mkdirSync :: "world \<Rightarrow> filesystem \<Rightarrow> path \<Rightarrow> filesystem" where
  "mkdirSync W fsys d = fsys\<lparr>dirs := insert (locate W d) (dirs fsys)\<rparr>"

definition unlinkSync :: "world \<Rightarrow> filesystem \<Rightarrow> path \<Rightarrow> filesystem" where
  "unlinkSync W fsys p = fsys\<lparr>files := (files fsys)(locate W p := None)\<rparr>"

section \<open>The backend adapter (\<^verbatim>\<open>ffmpeg.ts\<close>, with \<^verbatim>\<open>shortpath.ts\<close>)\<close>

text \<open>\<^verbatim>\<open>/^[\x00-\x7F]*$/.test(str)\<close>\<close>

definition isAscii :: "jsstring \<Rightarrow> bool" where
  "isAscii s = list_all (\<lambda>c. c \<le> 127) s"

definition getShortPathIfAscii :: "world \<Rightarrow> path \<Rightarrow> path" where
  "getShortPathIfAscii W p =
     (if \<not> win32 W then p
      else if \<not> isAscii p then p
      else case execShort W p of
             None \<Rightarrow> p
           | Some stdout \<Rightarrow> (let shortPath = js_trim stdout
                             in if 0 < length shortPath then shortPath else p))"

subsection \<open>\<^verbatim>\<open>measureLoudness\<close>\<close>

definition indexOf :: "jschar \<Rightarrow> jsstring \<Rightarrow> nat option" where
  "indexOf c s = (if c \<in> set s then Some (length (takeWhile (\<lambda>x. x \<noteq> c) s)) else None)"

definition lastIndexOf :: "jschar \<Rightarrow> jsstring \<Rightarrow> nat option" where
  "lastIndexOf c s =
     (if c \<in> set s then Some (length s - Suc (length (takeWhile (\<lambda>x. x \<noteq> c) (rev s))))
      else None)"

text \<open>\<^verbatim>\<open>s.slice(a, b)\<close> for indices within the string.\<close>

definition slice :: "jsstring \<Rightarrow> nat \<Rightarrow> nat \<Rightarrow> jsstring" where
  "slice s a b = take (b - a) (drop a s)"

text \<open>
  The \<^verbatim>\<open>end\<close> handler: \<open>json\<close> is the stderr text collected. The parsed object is read by
  property name only; a property holds the text a template literal renders for it.
\<close>

definition loudnessStats :: "world \<Rightarrow> jsstring \<Rightarrow> tags" where
  "loudnessStats W json =
     (case (indexOf 123 json, lastIndexOf 125 json) of
        (Some start, Some end') \<Rightarrow>
          (case JSON_parse W (slice json start (end' + 1)) of
             Some obj \<Rightarrow> obj
           | None \<Rightarrow> Map.empty)
      | _ \<Rightarrow> Map.empty)"

definition measureLoudness :: "world \<Rightarrow> path \<Rightarrow> nat \<Rightarrow> filesystem \<Rightarrow> js_error + tags" where
  "measureLoudness W input tick fsys =
     (case loudnessPass W input tick fsys of
        (lines, Some err) \<Rightarrow> Inl (Error err)
      | (lines, None) \<Rightarrow> Inr (loudnessStats W (concat (map (\<lambda>line. line @ [10]) lines))))"

subsection \<open>\<^verbatim>\<open>buildBase\<close> and \<^verbatim>\<open>toMp3\<close>\<close>

record ToMp3Options =
  o_input :: path
  o_output :: path
  o_bitrateKbps :: "jsnum option"
  o_vbrLevel :: "jsnum option"
  o_sampleRate :: "jsnum option"
  o_channels :: "jsnum option"
  o_loudnorm :: "bool option"
  o_trim :: "trimRange option"
  o_metadata :: "tags option"
  o_threads :: "jsnum option"

definition buildBase :: "world \<Rightarrow> path \<Rightarrow> ToMp3Options \<Rightarrow> ffcommand" where
  "buildBase W input opts =
     (let cmd = ffmpeg\<lparr>cmd_inputs := [getShortPathIfAscii W (resolve W (cwd W) input)]\<rparr>;
          start = (case o_trim opts of Some t \<Rightarrow> trim_start t | None \<Rightarrow> None);
          end' = (case o_trim opts of Some t \<Rightarrow> trim_end t | None \<Rightarrow> None);
          cmd = (if start \<noteq> None then cmd\<lparr>cmd_startTime := start\<rparr> else cmd)
      in if end' \<noteq> None \<and> start \<noteq> None
         then cmd\<lparr>cmd_duration := Some (max0 (js_minus (the end') (the start)))\<rparr>
         else if end' \<noteq> None then cmd\<lparr>cmd_duration := Some (max0 (the end'))\<rparr>
         else cmd)"

text \<open>The template literal of the pass-2 filter; \<open>stats\<close> is \<^verbatim>\<open>pass2Loudnorm || {}\<close>.\<close>

definition loudnormFilter :: "tags \<Rightarrow> jsstring" where
  "loudnormFilter stats =
     str ''loudnorm=I=-16:TP=-1.5:LRA=11:measured_I=''
     @ the (nullish (stats (str ''measured_I'')) (Some (str ''-16'')))
     @ str '':measured_TP='' @ the (nullish (stats (str ''measured_TP'')) (Some (str ''-1.5'')))
     @ str '':measured_LRA='' @ the (nullish (stats (str ''measured_LRA'')) (Some (str ''11'')))
     @ str '':measured_thresh='' @ the (nullish (stats (str ''measured_thresh'')) (Some (str ''-26'')))
     @ str '':linear=true:print_format=summary''"

text \<open>\<^verbatim>\<open>cmd.outputOption('-metadata', `k=${md.k}`)\<close> for each tag that is a non-empty string.\<close>

fun metadataOptions :: "tags \<Rightarrow> jsstring list \<Rightarrow> jsstring list" where
  "metadataOptions md [] = []"
| "metadataOptions md (k # ks) =
     (if truthy (md k) then [str ''-metadata'', k @ 61 # the (md k)] else [])
     @ metadataOptions md ks"

text \<open>
  The command \<^verbatim>\<open>toMp3\<close> builds inside its promise; \<open>pass2Loudnorm\<close> is the result of
  \<^verbatim>\<open>measureLoudness\<close> when \<^verbatim>\<open>loudnorm\<close> is set.
\<close>

definition toMp3_command :: "world \<Rightarrow> ToMp3Options \<Rightarrow> tags option \<Rightarrow> ffcommand" where
  "toMp3_command W opts pass2Loudnorm =
     (let cmd = (buildBase W (o_input opts) opts)\<lparr>cmd_audioCodec := Some (str ''libmp3lame'')\<rparr>;
          cmd = (case o_vbrLevel opts of
                   Some v \<Rightarrow> cmd\<lparr>cmd_audioQuality := Some (js_min (Num 9) (js_max (Num 0) v))\<rparr>
                 | None \<Rightarrow>
                     (case o_bitrateKbps opts of
                        Some b \<Rightarrow>
                          cmd\<lparr>cmd_audioBitrate :=
                                Some (numberToString W (js_max (Num 32) b) @ str ''k'')\<rparr>
                      | None \<Rightarrow> cmd\<lparr>cmd_audioBitrate := Some (str ''192k'')\<rparr>));
          cmd = (if num_truthy (o_sampleRate opts)
                 then cmd\<lparr>cmd_audioFrequency := o_sampleRate opts\<rparr> else cmd);
          cmd = (if num_truthy (o_channels opts)
                 then cmd\<lparr>cmd_audioChannels := o_channels opts\<rparr> else cmd);
          cmd = (if o_loudnorm opts = Some True
                 then (let stats = (case pass2Loudnorm of Some l \<Rightarrow> l | None \<Rightarrow> Map.empty)
                       in cmd\<lparr>cmd_audioFilters := cmd_audioFilters cmd @ [loudnormFilter stats]\<rparr>)
                 else cmd);
          outOpts = [str ''-map_metadata'', str ''0''];
          outOpts = (case o_threads opts of
                       Some n \<Rightarrow> if js_less (Num 0) n
                                 then outOpts @ [str ''-threads'', numberToString W n]
                                 else outOpts
                     | None \<Rightarrow> outOpts);
          (cmd, outOpts) =
            (case o_metadata opts of
               None \<Rightarrow> (cmd, outOpts)
             | Some md \<Rightarrow>
                 (let cmd = cmd\<lparr>cmd_outputOptions := cmd_outputOptions cmd @ metadataOptions md keys\<rparr>
                  in if truthy (md (str ''coverImagePath''))
                     then (cmd\<lparr>cmd_inputs := cmd_inputs cmd
                                  @ [getShortPathIfAscii W (the (md (str ''coverImagePath'')))]\<rparr>,
                           outOpts @ map str [''-map'', ''0:a'', ''-map'', ''1'', ''-c:v'', ''copy'',
                                             ''-disposition:v:1'', ''attached_pic'',
                                             ''-id3v2_version'', ''3''])
                     else (cmd, outOpts @ map str [''-map'', ''0:a'', ''-id3v2_version'', ''3''])))
      in cmd\<lparr>cmd_outputOptions := cmd_outputOptions cmd @ outOpts,
             cmd_output := Some (getShortPathIfAscii W (resolve W (cwd W) (o_output opts)))\<rparr>)"

text \<open>\<^verbatim>\<open>a.includes(b)\<close>\<close>

definition js_includes :: "jsstring \<Rightarrow> jsstring \<Rightarrow> bool" where
  "js_includes a b = (split_first b a \<noteq> None)"

text \<open>
  The check of the input before any engine call: a missing file is reported as not found
  (the message of \<^verbatim>\<open>statSync\<close> holds \<^verbatim>\<open>ENOENT\<close>), an empty one as empty.
\<close>

definition checkInput :: "world \<Rightarrow> filesystem \<Rightarrow> path \<Rightarrow> js_error option" where
  "checkInput W fsys input =
     (if \<not> existsSync W fsys input then Some (Error (str ''Input file not found: '' @ input))
      else case files fsys (locate W input) of
             Some f \<Rightarrow> if length (content f) = 0
                       then Some (Error (str ''Input file is empty (0 bytes)'')) else None
           | None \<Rightarrow> None)"

text \<open>The \<^verbatim>\<open>error\<close> handler of the encoding run.\<close>

definition encodeError :: "ToMp3Options \<Rightarrow> jsstring \<Rightarrow> js_error" where
  "encodeError opts msg =
     (if js_includes msg (str ''Invalid data found when processing input'')
      then Error (str ''Invalid or corrupted video file: '' @ o_input opts
                  @ str ''. The file may be empty or in an unsupported format.'')
      else Error (str ''FFmpeg error: '' @ msg @ str ''. Input: '' @ o_input opts
                  @ str '', Output: '' @ o_output opts))"

datatype call =
    ProbeTags path
  | ExtractAttachedPicture path nat path
  | ExtractFrame path jsnum path
  | MeasureLoudness path
  | Encode ffcommand

text \<open>
  \<^verbatim>\<open>toMp3\<close>: the rejection if any, the percentages handed to \<^verbatim>\<open>onProgress\<close>, the file
  system afterwards and the engine calls made. \<open>tick\<close> counts the engine calls before.
\<close>

definition toMp3 ::
  "world \<Rightarrow> ToMp3Options \<Rightarrow> nat \<Rightarrow> filesystem
     \<Rightarrow> js_error option \<times> rat list \<times> filesystem \<times> call list" where
  "toMp3 W opts tick fsys =
     (case checkInput W fsys (o_input opts) of
        Some e \<Rightarrow> (Some e, [], fsys, [])
      | None \<Rightarrow>
          (case (if o_loudnorm opts = Some True
                 then (case measureLoudness W (o_input opts) tick fsys of
                         Inl e \<Rightarrow> Inl e | Inr st \<Rightarrow> Inr (Some st, [MeasureLoudness (o_input opts)]))
                 else Inr (None, [])) of
             Inl e \<Rightarrow> (Some e, [], fsys, [MeasureLoudness (o_input opts)])
           | Inr (pass2Loudnorm, made) \<Rightarrow>
               (let cmd = toMp3_command W opts pass2Loudnorm;
                    r = ffmpegRun W cmd (tick + length made) fsys
                in (map_option (encodeError opts) (run_error r),
                    map the (filter (\<lambda>p. p \<noteq> None) (run_progress r)),
                    run_fs r,
                    made @ [Encode cmd]))))"

section \<open>The scheduler (\<^verbatim>\<open>convertPaths\<close>, lines 120-314)\<close>

text \<open>
  \<^verbatim>\<open>ConvertOptions\<close>. A callback is modelled by whether it is supplied: calling it appends an
  event to the run's event list. \<open>controller\<close> holds \<^verbatim>\<open>isPaused\<close> as the answers to its
  successive calls. \<open>coverFrameRules\<close> pairs \<^verbatim>\<open>pattern\<close> with \<^verbatim>\<open>timeSec\<close>; \<open>autoCover\<close> pairs
  \<^verbatim>\<open>enabled\<close> with \<^verbatim>\<open>timeSec\<close>; \<open>retry\<close> pairs \<^verbatim>\<open>attempts\<close> with \<^verbatim>\<open>delayMs\<close>.
\<close>

record ConvertOptions =
  outDir :: path
  bitrateKbps :: "jsnum option"
  vbrLevel :: "jsnum option"
  sampleRate :: "jsnum option"
  channels :: "jsnum option"
  loudnorm :: "bool option"
  trim :: "jsstring option"
  concurrency :: "jsnum option"
  keepStructure :: "bool option"
  overwrite :: "bool option"
  dryRun :: "bool option"
  throttle :: "throttle option"
  throttleDelayMs :: "jsnum option"
  autoMeta :: "bool option"
  preferDetected :: "bool option"
  coverFrameSec :: "jsnum option"
  coverFrameRules :: "(jsstring \<times> jsnum) list option"
  onFileStart :: bool
  onFileProgress :: bool
  onFileDone :: bool
  metadata :: "tags option"
  template :: "jsstring option"
  format :: "jsstring option"
  autoCover :: "(bool \<times> jsnum option) option"
  retry :: "(jsnum \<times> jsnum option) option"
  controller :: "(nat \<Rightarrow> bool) option"

record ConvertResult =
  res_input :: path
  res_output :: "path option"
  res_ok :: bool
  res_error :: "jsstring option"

text \<open>
  What a consumer observes: the three callbacks with their arguments, and the calls on the
  progress bars when no callback is supplied.
\<close>

datatype event =
    FileStart path nat nat path
  | FileProgress path rat
  | FileDone path path bool "jsstring option"
  | BarCreate path
  | BarUpdate path int
  | BarStop path
  | MultiBarStop

text \<open>
  The state a run threads through its tasks: the file system, \<^verbatim>\<open>idxCounter\<close>, the events
  emitted, the engine calls made, the number of \<^verbatim>\<open>isPaused\<close> polls and of random draws.
  Timers (the throttle delay, the retry delay, the pause poll interval) change no state.
\<close>

record state =
  fs :: filesystem
  idxCounter :: nat
  events :: "event list"
  calls :: "call list"
  polls :: nat
  draws :: nat

definition emit :: "event \<Rightarrow> state \<Rightarrow> state" where
  "emit e st = st\<lparr>events := events st @ [e]\<rparr>"

text \<open>
  Line 159: the bound handed to \<^verbatim>\<open>pLimit\<close>. What \<^verbatim>\<open>p-limit\<close> does with a bound it does not
  accept is outside the model.
\<close>

definition limiterSlots :: "world \<Rightarrow> ConvertOptions \<Rightarrow> jsnum" where
  "limiterSlots W opts = effectiveConcurrency (concurrency opts) (throttle opts) (cpus W)"

subsection \<open>Input resolution (lines 136-152)\<close>

definition VIDEO_EXTS :: "jsstring list" where
  "VIDEO_EXTS = map str [''.mp4'', ''.mov'', ''.mkv'', ''.avi'', ''.webm'', ''.flv'', ''.wmv'',
                         ''.m4v'', ''.3gp'']"

definition AUDIO_EXTS :: "jsstring list" where
  "AUDIO_EXTS = map str [''.mp3'', ''.wav'', ''.m4a'', ''.aac'', ''.flac'', ''.ogg'', ''.opus'',
                         ''.wma'']"

definition isMediaLike :: "world \<Rightarrow> path \<Rightarrow> bool" where
  "isMediaLike W p =
     (let ext = toLowerCase W (extname W p)
      in ext \<in> set VIDEO_EXTS \<or> ext \<in> set AUDIO_EXTS)"

text \<open>\<^verbatim>\<open>/[\*\?\[\]\{\}!]/.test(s)\<close>\<close>

definition isGlob :: "jsstring \<Rightarrow> bool" where
  "isGlob s = (\<exists>c \<in> set s. c \<in> {42, 63, 91, 93, 123, 125, 33})"

text \<open>\<^verbatim>\<open>inp.startsWith('\\\\') || inp.match(/^[a-zA-Z]:\\/)\<close>: a UNC or drive path.\<close>

definition isWindowsAbsolute :: "jsstring \<Rightarrow> bool" where
  "isWindowsAbsolute inp =
     (prefix [92, 92] inp
      \<or> (case inp of
            c # d # e # _ \<Rightarrow> ((65 \<le> c \<and> c \<le> 90) \<or> (97 \<le> c \<and> c \<le> 122)) \<and> d = 58 \<and> e = 92
          | _ \<Rightarrow> False))"

text \<open>
  The loop over \<^verbatim>\<open>inputs\<close>, filling \<^verbatim>\<open>direct\<close> and \<^verbatim>\<open>patterns\<close>. A UNC or drive path is
  kept as it is written, and it is that text which is pushed; the file system looks it up
  where the operating system finds it.
\<close>

fun classify ::
  "world \<Rightarrow> filesystem \<Rightarrow> jsstring list \<Rightarrow> path list \<times> jsstring list
     \<Rightarrow> path list \<times> jsstring list" where
  "classify W fsys [] (direct, patterns) = (direct, patterns)"
| "classify W fsys (inp # inputs) (direct, patterns) =
     (if inp = [] then classify W fsys inputs (direct, patterns)
      else
        let absPath = (if isWindowsAbsolute inp then inp else resolve W (cwd W) inp)
        in if existsSync W fsys absPath \<and> isFile W fsys absPath
           then classify W fsys inputs (direct @ [absPath], patterns)
           else if isGlob inp then classify W fsys inputs (direct, patterns @ [inp])
           else classify W fsys inputs (direct, patterns))"

text \<open>\<^verbatim>\<open>Array.from(new Set(xs))\<close>: each element once, at its first position.\<close>

fun uniq :: "'a list \<Rightarrow> 'a list \<Rightarrow> 'a list" where
  "uniq seen [] = []"
| "uniq seen (x # xs) = (if x \<in> set seen then uniq seen xs else x # uniq (seen @ [x]) xs)"

definition resolveCandidates :: "world \<Rightarrow> filesystem \<Rightarrow> jsstring list \<Rightarrow> path list" where
  "resolveCandidates W fsys inputs =
     (let (direct, patterns) = classify W fsys inputs ([], []);
          globbed = (if patterns \<noteq> [] then fast_glob W patterns fsys else []);
          everything = uniq [] (direct @ globbed)
      in filter (isMediaLike W) everything)"

subsection \<open>One task (lines 167-309)\<close>

text \<open>The output directory and the output path of an input.\<close>

definition taskOutDir :: "world \<Rightarrow> ConvertOptions \<Rightarrow> path \<Rightarrow> path" where
  "taskOutDir W opts input =
     (let relDir = (if keepStructure opts = Some True
                    then relative W (cwd W) (dirname W input) else [])
      in resolve W (outDir opts) relDir)"

definition taskOut :: "world \<Rightarrow> ConvertOptions \<Rightarrow> path \<Rightarrow> path" where
  "taskOut W opts input =
     (let base = basename W input (extname W input)
      in join W (taskOutDir W opts input)
           (outputFileName (numberToString W) (template opts) (format opts) base (extname W input)
              (bitrateKbps opts) (vbrLevel opts)))"

text \<open>\<^verbatim>\<open>tempCoverPath\<close>\<close>

definition tempCoverPath :: "world \<Rightarrow> path \<Rightarrow> jsstring \<Rightarrow> state \<Rightarrow> path \<times> state" where
  "tempCoverPath W outD sfx st =
     (join W outD (str ''.tf-'' @ randomHex W (draws st) @ sfx),
      st\<lparr>draws := Suc (draws st)\<rparr>)"

text \<open>
  \<^verbatim>\<open>waitIfPaused\<close>: polls \<^verbatim>\<open>isPaused\<close> until it answers false; the result is the number of
  polls made so far. A controller that never resumes gives no result.
\<close>

partial_function (option) waitIfPaused :: "(nat \<Rightarrow> bool) \<Rightarrow> nat \<Rightarrow> nat option" where
  "waitIfPaused isPaused n =
     (if isPaused n then waitIfPaused isPaused (Suc n) else Some (Suc n))"

text \<open>
  Lines 208-218: the user's cover, the probe, and the attached picture. The result is
  \<^verbatim>\<open>autoTags\<close>, \<^verbatim>\<open>coverPath\<close>, \<^verbatim>\<open>tempCover\<close> and the state. Every failure is swallowed.
\<close>

definition probeStage ::
  "world \<Rightarrow> ConvertOptions \<Rightarrow> path \<Rightarrow> path \<Rightarrow> state
     \<Rightarrow> tags \<times> jsstring option \<times> path option \<times> state" where
  "probeStage W opts input outD st =
     (let coverPath = (case metadata opts of Some m \<Rightarrow> m (str ''coverImagePath'') | None \<Rightarrow> None);
          st1 = st\<lparr>calls := calls st @ [ProbeTags input]\<rparr>
      in case probeTags W input (length (calls st)) (fs st) of
           Inl e \<Rightarrow> (Map.empty, coverPath, None, st1)
         | Inr (tgs, attachedPicStreamIndex) \<Rightarrow>
             (case attachedPicStreamIndex of
                Some idx \<Rightarrow>
                  if \<not> truthy coverPath then
                    (let (tmp, st2) = tempCoverPath W outD (str ''.cover.attached.jpg'') st1;
                         (resolved, fs') = extractAttachedPicture W input idx tmp
                                             (length (calls st2)) (fs st2);
                         st3 = st2\<lparr>fs := fs',
                                    calls := calls st2 @ [ExtractAttachedPicture input idx tmp]\<rparr>
                     in if resolved \<and> existsSync W fs' tmp
                        then (tgs, Some tmp, Some tmp, st3)
                        else (tgs, coverPath, None, st3))
                  else (tgs, coverPath, None, st1)
              | None \<Rightarrow> (tgs, coverPath, None, st1)))"

text \<open>Lines 220-226: the tags guessed from the file name, unless \<^verbatim>\<open>autoMeta\<close> is false.\<close>

definition fileNameTagsOf :: "bool option \<Rightarrow> jsstring \<Rightarrow> tags" where
  "fileNameTagsOf autoM base =
     (if autoM \<noteq> Some False
      then (let g = detectFromFilename base;
                t = (if truthy (artist g) then [str ''artist'' \<mapsto> the (artist g)] else Map.empty)
            in if truthy (title g) then t(str ''title'' \<mapsto> the (title g)) else t)
      else Map.empty)"

text \<open>Lines 230-235: the time of the cover frame; the first rule that matches wins.\<close>

fun applyRules :: "world \<Rightarrow> jsstring \<Rightarrow> (jsstring \<times> jsnum) list \<Rightarrow> jsnum \<Rightarrow> jsnum" where
  "applyRules W base [] tSec = tSec"
| "applyRules W base ((pattern, timeSec) # rules) tSec =
     (if regexTest W pattern base = Some True then timeSec else applyRules W base rules tSec)"

definition coverTime :: "world \<Rightarrow> ConvertOptions \<Rightarrow> jsstring \<Rightarrow> jsnum" where
  "coverTime W opts base =
     (let tSec = the (nullish (coverFrameSec opts)
                       (nullish (case autoCover opts of Some (en, t) \<Rightarrow> t | None \<Rightarrow> None)
                          (Some (Num 5))))
      in case coverFrameRules opts of
           Some rules \<Rightarrow> applyRules W base rules tSec
         | None \<Rightarrow> tSec)"

text \<open>Lines 228-239: the frame fallback when there is still no cover.\<close>

definition frameStage ::
  "world \<Rightarrow> ConvertOptions \<Rightarrow> path \<Rightarrow> path \<Rightarrow> jsstring \<Rightarrow> jsstring option \<times> path option \<times> state
     \<Rightarrow> jsstring option \<times> path option \<times> state" where
  "frameStage W opts input outD base cts =
     (case cts of (coverPath, tempCover, st) \<Rightarrow>
        if \<not> truthy coverPath then
          (let tSec = coverTime W opts base;
               (tmp, st1) = tempCoverPath W outD (str ''.cover.jpg'') st;
               (resolved, fs') = extractFrame W input tSec tmp (length (calls st1)) (fs st1);
               st2 = st1\<lparr>fs := fs', calls := calls st1 @ [ExtractFrame input tSec tmp]\<rparr>
           in if resolved \<and> existsSync W fs' tmp
              then (Some tmp, Some tmp, st2)
              else (coverPath, tempCover, st2))
        else (coverPath, tempCover, st))"

text \<open>
  Lines 242-248. \<^verbatim>\<open>createConverter\<close> returns \<^verbatim>\<open>toMp3\<close>, \<^verbatim>\<open>extractFrame\<close>, \<^verbatim>\<open>probeTags\<close> and
  \<^verbatim>\<open>extractAttachedPicture\<close> only: the other four encoders are undefined, and calling one
  throws a TypeError.
\<close>

datatype encoder = ToAac | ToFlac | ToOgg | ToOpus | ToMp3

definition convertFn :: "world \<Rightarrow> jsstring \<Rightarrow> encoder" where
  "convertFn W extO =
     (let extLower = toLowerCase W extO
      in if extLower = str ''.m4a'' \<or> extLower = str ''.aac'' then ToAac
         else if extLower = str ''.flac'' then ToFlac
         else if extLower = str ''.ogg'' then ToOgg
         else if extLower = str ''.opus'' then ToOpus
         else ToMp3)"

text \<open>
  \<^verbatim>\<open>onProgress\<close> (lines 278-281): the bar shows the rounded percentage clamped to [1,99];
  \<^verbatim>\<open>onFileProgress\<close> receives \<open>p\<close> itself.
\<close>

definition onProgress :: "ConvertOptions \<Rightarrow> bool \<Rightarrow> path \<Rightarrow> rat \<Rightarrow> state \<Rightarrow> state" where
  "onProgress opts useBars input p st =
     (let st1 = (if useBars then emit (BarUpdate input (min 99 (max 1 (\<lfloor>p + 1 / 2\<rfloor>)))) st
                 else st)
      in if onFileProgress opts then emit (FileProgress input p) st1 else st1)"

text \<open>Lines 249-282: one call of \<^verbatim>\<open>attempt\<close>.\<close>

definition attempt ::
  "world \<Rightarrow> ConvertOptions \<Rightarrow> bool \<Rightarrow> trimRange \<Rightarrow> path \<Rightarrow> path \<Rightarrow> encoder \<Rightarrow> tags
     \<Rightarrow> state \<Rightarrow> js_error option \<times> state" where
  "attempt W opts useBars trimR input out enc merged st =
     (case enc of
        ToMp3 \<Rightarrow>
          (let arg = \<lparr>o_input = input, o_output = out, o_bitrateKbps = bitrateKbps opts,
                    o_vbrLevel = vbrLevel opts, o_sampleRate = sampleRate opts,
                    o_channels = channels opts,
                    o_loudnorm = Some (loudnorm opts = Some True),
                    o_trim = Some trimR, o_metadata = Some merged,
                    o_threads = (if throttle opts = Some Low then Some (Num 1)
                                 else if throttle opts = Some Medium then Some (Num 2)
                                 else None)\<rparr>;
               (err, ps, fs', made) = toMp3 W arg (length (calls st)) (fs st);
               st1 = fold (onProgress opts useBars input) ps st
           in (err, st1\<lparr>fs := fs', calls := calls st1 @ made\<rparr>))
      | _ \<Rightarrow> (Some (TypeError (str ''convertFn is not a function'')), st))"

text \<open>
  Lines 284-289: the retry loop, \<^verbatim>\<open>for (let i=0;i<attempts;i++)\<close>. The result is \<^verbatim>\<open>okRun\<close>,
  \<^verbatim>\<open>lastErr\<close> and the state; there is none when the loop never ends (every attempt fails
  and \<open>i\<close> never reaches \<open>attempts\<close>, as for an infinite \<open>attempts\<close>).
\<close>

partial_function (option) retryLoop ::
  "(state \<Rightarrow> js_error option \<times> state) \<Rightarrow> jsnum \<Rightarrow> jsnum \<Rightarrow> js_error option \<Rightarrow> state
     \<Rightarrow> (bool \<times> js_error option \<times> state) option" where
  "retryLoop att attempts i lastErr st =
     (if js_less i attempts
      then (case att st of
              (None, st') \<Rightarrow> Some (True, lastErr, st')
            | (Some e, st') \<Rightarrow> retryLoop att attempts (js_plus i (Num 1)) (Some e) st')
      else Some (False, lastErr, st))"

text \<open>\<^verbatim>\<open>e?.message || String(e)\<close>\<close>

definition errorText :: "js_error option \<Rightarrow> jsstring" where
  "errorText e =
     (case e of
        None \<Rightarrow> str ''undefined''
      | Some x \<Rightarrow> (if message x \<noteq> [] then message x else error_name x))"

text \<open>
  Lines 207-277, what a task settles before its first attempt: the probe, the tags guessed
  from the file name, the cover, and from them the \<^verbatim>\<open>metadata\<close> argument of every attempt.
  The result is that bundle, \<^verbatim>\<open>tempCover\<close> and the state.
\<close>

definition prepare ::
  "world \<Rightarrow> ConvertOptions \<Rightarrow> path \<Rightarrow> path \<Rightarrow> state \<Rightarrow> tags \<times> path option \<times> state" where
  "prepare W opts input outD st =
     (let base = basename W input (extname W input);
          (autoTags, coverPath, tempCover, st1) = probeStage W opts input outD st;
          fileNameTags = fileNameTagsOf (autoMeta opts) base;
          (coverPath, tempCover, st2) = frameStage W opts input outD base (coverPath, tempCover, st1)
      in (mergeMetadata (preferDetected opts = Some True) autoTags fileNameTags (metadata opts)
            coverPath,
          tempCover, st2))"

text \<open>
  Lines 207-294 inside the \<^verbatim>\<open>try\<close>, after the dry-run return: \<open>Inl\<close> is the exception that
  reaches the \<^verbatim>\<open>catch\<close> of line 295, \<open>Inr\<close> the normal completion. \<open>attempts\<close> is
  \<^verbatim>\<open>Math.max(1, opts.retry?.attempts ?? 1)\<close>.
\<close>

definition pipeline ::
  "world \<Rightarrow> ConvertOptions \<Rightarrow> bool \<Rightarrow> trimRange \<Rightarrow> path \<Rightarrow> path \<Rightarrow> path \<Rightarrow> state
     \<Rightarrow> ((js_error option + unit) \<times> state) option" where
  "pipeline W opts useBars trimR input outD out st =
     (let (merged, tempCover, st2) = prepare W opts input outD st;
          enc = convertFn W (extOut (format opts));
          attempts = js_max (Num 1) (case retry opts of Some (a, d) \<Rightarrow> a | None \<Rightarrow> Num 1)
      in case retryLoop (attempt W opts useBars trimR input out enc merged) attempts (Num 0)
                None st2 of
           None \<Rightarrow> None
         | Some (okRun, lastErr, st3) \<Rightarrow>
             if \<not> okRun then Some (Inl lastErr, st3)
             else
               let st4 = (if truthy tempCover
                          then st3\<lparr>fs := unlinkSync W (fs st3) (the tempCover)\<rparr> else st3);
                   st5 = (if useBars then emit (BarStop input) (emit (BarUpdate input 100) st4)
                          else st4);
                   st6 = (if onFileDone opts then emit (FileDone input out True None) st5 else st5)
               in Some (Inr (), st6))"

text \<open>
  One task. \<open>None\<close>: the task never completes, because the controller never resumes or the
  retry loop never ends.
\<close>

definition convertTask ::
  "world \<Rightarrow> ConvertOptions \<Rightarrow> bool \<Rightarrow> trimRange \<Rightarrow> nat \<Rightarrow> path \<Rightarrow> state
     \<Rightarrow> (ConvertResult \<times> state) option" where
  "convertTask W opts useBars trimR totalN input st =
     (let outD = taskOutDir W opts input;
          out = taskOut W opts input;
          st = (if dryRun opts \<noteq> Some True then st\<lparr>fs := mkdirSync W (fs st) outD\<rparr> else st)
      in if overwrite opts \<noteq> Some True \<and> existsSync W (fs st) out
         then Some (\<lparr>res_input = input, res_output = Some out, res_ok = True, res_error = None\<rparr>,
                    st)
         else
           let index = idxCounter st;
               st = st\<lparr>idxCounter := Suc index\<rparr>;
               st = (if onFileStart opts then emit (FileStart input index totalN out) st else st);
               st = (if useBars then emit (BarCreate (basename W input [])) st else st)
           in case (case controller opts of
                      Some isPaused \<Rightarrow> waitIfPaused isPaused (polls st)
                    | None \<Rightarrow> Some (polls st)) of
                None \<Rightarrow> None
              | Some n \<Rightarrow>
                  (let st = st\<lparr>polls := n\<rparr>
                   in if dryRun opts = Some True
                      then
                        (let st = (if useBars
                                   then emit (BarStop input) (emit (BarUpdate input 100) st)
                                   else st);
                             st = (if onFileDone opts then emit (FileDone input out True None) st
                                   else st)
                         in Some (\<lparr>res_input = input, res_output = Some out, res_ok = True,
                                    res_error = None\<rparr>, st))
                      else
                        (case pipeline W opts useBars trimR input outD out st of
                           None \<Rightarrow> None
                         | Some (Inr u, st) \<Rightarrow>
                             Some (\<lparr>res_input = input, res_output = Some out, res_ok = True,
                                     res_error = None\<rparr>, st)
                         | Some (Inl e, st) \<Rightarrow>
                             (let st = (if useBars then emit (BarStop input) st else st);
                                  st = (if onFileDone opts
                                        then emit (FileDone input out False (Some (errorText e))) st
                                        else st)
                              in Some (\<lparr>res_input = input, res_output = Some out, res_ok = False,
                                         res_error = Some (errorText e)\<rparr>, st)))))"

text \<open>The result of a task that takes the skip path.\<close>

definition skipped :: "world \<Rightarrow> ConvertOptions \<Rightarrow> path \<Rightarrow> ConvertResult" where
  "skipped W opts input =
     \<lparr>res_input = input, res_output = Some (taskOut W opts input), res_ok = True,
      res_error = None\<rparr>"

subsection \<open>The run\<close>

text \<open>
  The tasks are run one after the other, in candidate order: the schedule of a limiter of
  one slot. With more slots the tasks interleave at their awaits; the events, engine calls
  and file operations of one task keep the order given here.
\<close>

fun runTasks ::
  "world \<Rightarrow> ConvertOptions \<Rightarrow> bool \<Rightarrow> trimRange \<Rightarrow> nat \<Rightarrow> path list \<Rightarrow> state
     \<Rightarrow> (ConvertResult list \<times> state) option" where
  "runTasks W opts useBars trimR totalN [] st = Some ([], st)"
| "runTasks W opts useBars trimR totalN (input # rest) st =
     (case convertTask W opts useBars trimR totalN input st of
        None \<Rightarrow> None
      | Some (r, st') \<Rightarrow>
          (case runTasks W opts useBars trimR totalN rest st' of
             None \<Rightarrow> None
           | Some (rs, st'') \<Rightarrow> Some (r # rs, st'')))"

text \<open>
  \<^verbatim>\<open>convertPaths\<close>: \<open>Inl\<close> is the rejection of the returned promise, \<open>Inr\<close> the result list.
\<close>

definition convertPaths ::
  "world \<Rightarrow> jsstring list \<Rightarrow> ConvertOptions \<Rightarrow> state
     \<Rightarrow> ((js_error + ConvertResult list) \<times> state) option" where
  "convertPaths W inputs opts st =
     (let useBars = \<not> (onFileStart opts \<or> onFileProgress opts \<or> onFileDone opts);
          candidates = resolveCandidates W (fs st) inputs
      in if length candidates = 0 then Some (Inr [], st)
         else case parseTrim (trim opts) of
                Inl e \<Rightarrow> Some (Inl e, st)
              | Inr trimRange \<Rightarrow>
                  (case runTasks W opts useBars trimRange (length candidates) candidates st of
                     None \<Rightarrow> None
                   | Some (results, st') \<Rightarrow>
                       Some (Inr results, if useBars then emit MultiBarStop st' else st')))"

subsection \<open>Input resolution as the specification words it\<close>

text \<open>
  The union of literal and glob-expanded paths, deduplicated and filtered. \<open>written_path\<close> is
  the path text an input stands for; an input names a file when that path is a file on
  disk; the inputs that name no file and hold a glob character are the patterns.
\<close>

definition written_path :: "world \<Rightarrow> jsstring \<Rightarrow> path" where
  "written_path W inp = (if isWindowsAbsolute inp then inp else resolve W (cwd W) inp)"

definition names_file :: "world \<Rightarrow> filesystem \<Rightarrow> jsstring \<Rightarrow> bool" where
  "names_file W fsys inp =
     (inp \<noteq> [] \<and> existsSync W fsys (written_path W inp) \<and> isFile W fsys (written_path W inp))"

definition literal_files :: "world \<Rightarrow> filesystem \<Rightarrow> jsstring list \<Rightarrow> path list" where
  "literal_files W fsys inputs = map (written_path W) (filter (names_file W fsys) inputs)"

definition glob_patterns :: "world \<Rightarrow> filesystem \<Rightarrow> jsstring list \<Rightarrow> jsstring list" where
  "glob_patterns W fsys inputs =
     filter (\<lambda>inp. inp \<noteq> [] \<and> \<not> names_file W fsys inp \<and> isGlob inp) inputs"

definition glob_files :: "world \<Rightarrow> filesystem \<Rightarrow> jsstring list \<Rightarrow> path list" where
  "glob_files W fsys inputs =
     (if glob_patterns W fsys inputs = [] then []
      else fast_glob W (glob_patterns W fsys inputs) fsys)"

text \<open>The allow-list of the specification, with the dot that \<^verbatim>\<open>extname\<close> keeps.\<close>

definition media_extensions :: "jsstring set" where
  "media_extensions =
     str ` {''.mp4'', ''.mov'', ''.mkv'', ''.avi'', ''.webm'', ''.flv'', ''.wmv'', ''.m4v'',
            ''.3gp'', ''.mp3'', ''.wav'', ''.m4a'', ''.aac'', ''.flac'', ''.ogg'', ''.opus'',
            ''.wma''}"

section \<open>A world for the examples\<close>

text \<open>
  The examples below run the model in one concrete world. Its path functions are those of
  \<^verbatim>\<open>node:path\<close> on POSIX as far as the examples go: absolute paths whose segments are
  plain file names (no \<^verbatim>\<open>.\<close> or \<^verbatim>\<open>..\<close> segment, no repeated or trailing separator).
\<close>

definition lastSegment :: "path \<Rightarrow> jsstring" where
  "lastSegment p = rev (takeWhile (\<lambda>c. c \<noteq> 47) (rev p))"

definition demo_extname :: "path \<Rightarrow> jsstring" where
  "demo_extname p =
     (let name = lastSegment p
      in if 46 \<in> set (drop 1 name) then 46 # rev (takeWhile (\<lambda>c. c \<noteq> 46) (rev name)) else [])"

definition demo_basename :: "path \<Rightarrow> jsstring \<Rightarrow> jsstring" where
  "demo_basename p ext =
     (let name = lastSegment p
      in if ext \<noteq> [] \<and> ext \<noteq> name \<and> drop (length name - length ext) name = ext
         then take (length name - length ext) name else name)"

definition demo_dirname :: "path \<Rightarrow> path" where
  "demo_dirname p =
     (let d = rev (drop 1 (dropWhile (\<lambda>c. c \<noteq> 47) (rev p))) in if d = [] then [47] else d)"

definition demo_resolve :: "path \<Rightarrow> path \<Rightarrow> path" where
  "demo_resolve a b = (if b = [] then a else if prefix [47] b then b else a @ 47 # b)"

text \<open>
  \<^verbatim>\<open>String(x)\<close> as far as the examples go: NaN, the infinities, and the integers below
  \<open>10\<^sup>2\<^sup>1\<close> in magnitude, which are written with all their digits.
\<close>

fun digits :: "nat \<Rightarrow> jsstring" where
  "digits n = (if n < 10 then [48 + n] else digits (n div 10) @ [48 + n mod 10])"

declare digits.simps [simp del]

fun demo_numberToString :: "jsnum \<Rightarrow> jsstring" where
  "demo_numberToString NaN = str ''NaN''"
| "demo_numberToString (Inf s) = (if s then str ''Infinity'' else str ''-Infinity'')"
| "demo_numberToString (Num r) =
     (if r < 0 then 45 # digits (nat \<lfloor>- r\<rfloor>) else digits (nat \<lfloor>r\<rfloor>))"

definition demo_toLowerCase :: "jsstring \<Rightarrow> jsstring" where
  "demo_toLowerCase s = map (\<lambda>c. if 65 \<le> c \<and> c \<le> 90 then c + 32 else c) s"

text \<open>
  The engine of the examples: the probe finds no tag and no attached picture, the frame
  extraction writes the cover file it is asked for, and the encoding run reports 0, 50 and
  100 percent and writes its output.
\<close>

definition demo_picture :: regular_file where
  "demo_picture = \<lparr>content = [255, 216, 255], mtime = 7\<rparr>"

definition demo_audio :: regular_file where
  "demo_audio = \<lparr>content = [73, 68, 51], mtime = 8\<rparr>"

definition demo_extractFrame ::
  "path \<Rightarrow> jsnum \<Rightarrow> path \<Rightarrow> nat \<Rightarrow> filesystem \<Rightarrow> bool \<times> filesystem" where
  "demo_extractFrame input tSec tmp tick fsys =
     (True, fsys\<lparr>files := (files fsys)(tmp \<mapsto> demo_picture)\<rparr>)"

definition demo_run :: "ffcommand \<Rightarrow> nat \<Rightarrow> filesystem \<Rightarrow> run_result" where
  "demo_run cmd tick fsys =
     \<lparr>run_progress = [Some 0, Some 50, Some 100], run_error = None,
      run_fs = (case cmd_output cmd of
                  Some p \<Rightarrow> fsys\<lparr>files := (files fsys)(p \<mapsto> demo_audio)\<rparr>
                | None \<Rightarrow> fsys)\<rparr>"

text \<open>An encoding run that reports 50 percent and then fails, writing nothing.\<close>

definition failing_run :: "ffcommand \<Rightarrow> nat \<Rightarrow> filesystem \<Rightarrow> run_result" where
  "failing_run cmd tick fsys =
     \<lparr>run_progress = [Some 50], run_error = Some (str ''Conversion failed!''), run_fs = fsys\<rparr>"

definition demo_world :: world where
  "demo_world =
     \<lparr>win32 = False,
      execShort = (\<lambda>p. None),
      cwd = str ''/work'',
      cpus = 8,
      resolve = demo_resolve,
      join = (\<lambda>a b. a @ 47 # b),
      basename = demo_basename,
      extname = demo_extname,
      dirname = demo_dirname,
      relative = (\<lambda>a b. if prefix (a @ [47]) b then drop (Suc (length a)) b else []),
      toLowerCase = demo_toLowerCase,
      numberToString = demo_numberToString,
      JSON_parse = (\<lambda>s. None),
      regexTest = (\<lambda>pattern base. Some False),
      randomHex = (\<lambda>n. str ''a1b2c3d4e5f6''),
      fast_glob = (\<lambda>patterns fsys. []),
      probeTags = (\<lambda>input tick fsys. Inr (Map.empty, None)),
      extractAttachedPicture = (\<lambda>input idx tmp tick fsys. (False, fsys)),
      extractFrame = demo_extractFrame,
      loudnessPass = (\<lambda>input tick fsys. ([], None)),
      ffmpegRun = demo_run\<rparr>"

text \<open>The same world with an engine whose encoding runs all fail.\<close>

definition failing_world :: world where
  "failing_world = demo_world\<lparr>ffmpegRun := failing_run\<rparr>"

text \<open>
  A world whose probe reports an attached picture in stream 1, which the extraction writes
  to the file it is asked for.
\<close>

definition demo_extractAttachedPicture ::
  "path \<Rightarrow> nat \<Rightarrow> path \<Rightarrow> nat \<Rightarrow> filesystem \<Rightarrow> bool \<times> filesystem" where
  "demo_extractAttachedPicture input idx tmp tick fsys =
     (True, fsys\<lparr>files := (files fsys)(tmp \<mapsto> demo_picture)\<rparr>)"

definition picture_world :: world where
  "picture_world = demo_world\<lparr>probeTags := (\<lambda>input tick fsys. Inr (Map.empty, Some 1)),
                               extractAttachedPicture := demo_extractAttachedPicture\<rparr>"

text \<open>
  A request with the three callbacks supplied and every other option left out, and a
  file system that holds one input.
\<close>

definition demo_opts :: ConvertOptions where
  "demo_opts =
     \<lparr>outDir = str ''/out'', bitrateKbps = None, vbrLevel = None, sampleRate = None,
      channels = None, loudnorm = None, trim = None, concurrency = None,
      keepStructure = None, overwrite = None, dryRun = None, throttle = None,
      throttleDelayMs = None, autoMeta = None, preferDetected = None, coverFrameSec = None,
      coverFrameRules = None, onFileStart = True, onFileProgress = True, onFileDone = True,
      metadata = None, template = None, format = None, autoCover = None, retry = None,
      controller = None\<rparr>"

definition demo_video :: regular_file where
  "demo_video = \<lparr>content = [0, 0, 0, 24], mtime = 5\<rparr>"

definition demo_state :: "(path \<rightharpoonup> regular_file) \<Rightarrow> state" where
  "demo_state fl =
     \<lparr>fs = \<lparr>files = fl, dirs = {str ''/in'', str ''/out''}\<rparr>,
      idxCounter = 0, events = [], calls = [], polls = 0, draws = 0\<rparr>"

text \<open>
  A world whose \<^verbatim>\<open>fast-glob\<close> expands the one pattern \<^verbatim>\<open>/m/*\<close>, to three files of which one
  is no media file.
\<close>

definition glob_world :: world where
  "glob_world =
     demo_world\<lparr>fast_glob :=
       (\<lambda>patterns fsys. if patterns = [str ''/m/*'']
                         then map str [''/m/a.mp4'', ''/m/b.MP3'', ''/m/notes.txt'']
                         else [str ''/m/unexpected.mp4''])\<rparr>"

definition glob_files_on_disk :: filesystem where
  "glob_files_on_disk =
     \<lparr>files = [str ''/m/a.mp4'' \<mapsto> demo_video, str ''/m/b.MP3'' \<mapsto> demo_audio,
               str ''/m/notes.txt'' \<mapsto> demo_audio, str ''/work/c.mkv'' \<mapsto> demo_video],
      dirs = {str ''/m'', str ''/work''}\<rparr>"

text \<open>
  A file of the working directory whose name has the form of a drive path, \<^verbatim>\<open>C:\x.mp4\<close>.
\<close>

definition drive_name :: jsstring where
  "drive_name = str ''C:'' @ 92 # str ''x.mp4''"

definition drive_file_on_disk :: filesystem where
  "drive_file_on_disk =
     \<lparr>files = [str ''/work/'' @ drive_name \<mapsto> demo_video], dirs = {str ''/work''}\<rparr>"

section \<open>Properties\<close>

text \<open>The equations that evaluate the string functions on a given text.\<close>

lemmas rx_eval = str_def seqs_def run_def is_dot_def is_space_def is_dash_def is_word_def
  word_at_def Let_def chr_def lit_i_def ascii_upper_def
  rx_search.simps rx_replace_all.simps rx_split_loop.simps rx_split_def rx_replace_first_def
  js_trim_def group_def js_match2_def


subsection \<open>Numbers\<close>

lemma bits_pos: "0 < n \<Longrightarrow> 0 < bits n"
  by (simp add: bits.simps [of n])

lemma bits_le: "n < 2 ^ k \<Longrightarrow> bits n \<le> k"
proof (induction n arbitrary: k rule: bits.induct)
  case (1 n)
  show ?case
  proof (cases "n = 0")
    case True
    then show ?thesis by (simp add: bits.simps [of 0])
  next
    case False
    with 1(2) obtain j where k: "k = Suc j" by (cases k) auto
    with 1(2) have "n div 2 < 2 ^ j" by auto
    with 1(1) False have "bits (n div 2) \<le> j" by blast
    with False k show ?thesis by (simp add: bits.simps [of n])
  qed
qed

lemma round_even_int: "round_even (of_int i) = i"
  by (simp add: round_even_def)

text \<open>An integer below \<open>2\<^sup>5\<^sup>3\<close> in magnitude is a double: rounding leaves it as it is.\<close>

lemma to_double_int:
  assumes "\<bar>m\<bar> < 2 ^ 53"
  shows "to_double (of_int m) = Num (of_int m)"
proof (cases "m = 0")
  case True
  then show ?thesis by (simp add: to_double_def)
next
  case False
  define n where "n = nat \<bar>m\<bar>"
  have n: "0 < n" "n < 2 ^ 53" using False assms by (auto simp: n_def nat_less_iff)
  define j where "j = 53 - bits n"
  define a :: rat where "a = of_int \<bar>m\<bar>"
  have b: "0 < bits n" "bits n \<le> 53" using n bits_pos bits_le by auto
  have a: "\<bar>rat_of_int m\<bar> = a" by (simp add: a_def)
  have "1 \<le> \<bar>m\<bar>" using False by simp
  then have one: "1 \<le> a" unfolding a_def by (metis of_int_1_le_iff)
  have "\<lfloor>a\<rfloor> = \<bar>m\<bar>" unfolding a_def by (rule floor_of_int)
  then have fl: "floor_log2 a = int (bits n) - 1"
    using one by (simp add: floor_log2_def n_def)
  have k: "max (floor_log2 a - 52) (- 1074) = - int j"
    using b by (simp add: fl j_def)
  have p: "pow2 (- int j) = 1 / 2 ^ j"
    by (auto simp: pow2_def)
  have "a / pow2 (- int j) = rat_of_int (\<bar>m\<bar> * 2 ^ j)"
    unfolding a_def p by (simp del: of_int_abs)
  then have "round_even (a / pow2 (- int j)) = \<bar>m\<bar> * 2 ^ j"
    by (simp only: round_even_int)
  then have r: "round_to (- int j) a = a"
    unfolding round_to_def p a_def by (simp del: of_int_abs)
  have "a < rat_of_int (2 ^ 53)" unfolding a_def using assms by (simp only: of_int_less_iff)
  also have "\<dots> < 2 ^ 1024" by simp
  finally have s: "\<not> (2 ^ 1024 \<le> a)" by simp
  have nz: "rat_of_int m \<noteq> 0" using False by simp
  have "(if m < 0 then - a else a) = rat_of_int m" by (simp add: a_def)
  then show ?thesis
    unfolding to_double_def a k r signed_def using s nz by simp
qed

lemma to_double_numeral:
  "numeral k < (2::int) ^ 53 \<Longrightarrow> to_double (numeral k) = Num (numeral k)"
  "numeral k < (2::int) ^ 53 \<Longrightarrow> to_double (- numeral k) = Num (- numeral k)"
  "to_double 0 = Num 0" "to_double 1 = Num 1"
  using to_double_int [of "numeral k"] to_double_int [of "- numeral k"] to_double_int [of 1]
  by (simp_all add: to_double_def)

text \<open>The floor and the ceiling of a quotient of numerals, for evaluation.\<close>

lemma floor_rat_numeral: "\<lfloor>(numeral a / numeral b :: rat)\<rfloor> = numeral a div numeral b"
  using floor_divide_of_int_eq [of "numeral a" "numeral b", where ?'a = rat] by simp

lemma ceiling_rat_numeral:
  "\<lceil>(numeral a / numeral b :: rat)\<rceil> = - ((- numeral a) div numeral b)"
  using floor_divide_of_int_eq [of "- numeral a" "numeral b", where ?'a = rat]
  by (simp add: ceiling_def flip: minus_divide_left)

lemmas double_eval = to_double_def floor_log2_def pow2_def round_even_def round_to_def
  signed_def bits.simps Let_def floor_rat_numeral ceiling_rat_numeral
subsection \<open>Runs in the example world\<close>

lemmas demo_paths = demo_world_def demo_extname_def demo_basename_def demo_dirname_def
  demo_resolve_def demo_toLowerCase_def lastSegment_def

lemma toMp3_command_output:
  "cmd_output (toMp3_command W opts p)
     = Some (getShortPathIfAscii W (resolve W (cwd W) (o_output opts)))"
  by (simp add: toMp3_command_def Let_def split: option.splits prod.splits)

lemma demo_out:
  "taskOut demo_world demo_opts (str ''/in/song.mp4'') = str ''/out/song.mp3''"
  "taskOut failing_world demo_opts (str ''/in/song.mp4'') = str ''/out/song.mp3''"
  by (simp_all add: taskOut_def taskOutDir_def failing_world_def demo_paths demo_opts_def
      outputFileName_def template_or_default_def truthy_def extOut_def expandTemplate_def
      js_replace_def rx_eval rx_leading_dot_def rx_extension_def)

lemma demo_outDir:
  "taskOutDir demo_world demo_opts (str ''/in/song.mp4'') = str ''/out''"
  "taskOutDir failing_world demo_opts (str ''/in/song.mp4'') = str ''/out''"
  by (simp_all add: taskOutDir_def failing_world_def demo_paths demo_opts_def)

lemma demo_enc: "convertFn W (extOut (format demo_opts)) = ToMp3"
  if "toLowerCase W = demo_toLowerCase"
  using that by (simp add: convertFn_def extOut_def demo_opts_def truthy_def demo_paths str_def)

lemma demo_base:
  "demo_basename (str ''/in/song.mp4'') (demo_extname (str ''/in/song.mp4'')) = str ''song''"
  by (simp add: demo_paths str_def)

lemma demo_candidates:
  "files fsys (str ''/in/song.mp4'') = Some f \<Longrightarrow>
     resolveCandidates demo_world fsys [str ''/in/song.mp4''] = [str ''/in/song.mp4'']"
  "files fsys (str ''/in/song.mp4'') = Some f \<Longrightarrow>
     resolveCandidates failing_world fsys [str ''/in/song.mp4''] = [str ''/in/song.mp4'']"
  by (simp_all add: resolveCandidates_def isWindowsAbsolute_def existsSync_def locate_def
      isFile_def isMediaLike_def VIDEO_EXTS_def AUDIO_EXTS_def failing_world_def demo_paths
      str_def)

lemma demo_state_files: "files (fs (demo_state fl)) = fl"
  by (simp add: demo_state_def)

text \<open>A run over one candidate is the task of that candidate.\<close>

lemma convertPaths_single:
  assumes "resolveCandidates W (fs st) inputs = [c]"
    and "trim opts = None"
    and "onFileStart opts"
  shows "convertPaths W inputs opts st
           = map_option (\<lambda>(r, s). (Inr [r], s))
               (convertTask W opts False \<lparr>trim_start = None, trim_end = None\<rparr> 1 c st)"
  using assms
  by (auto simp: convertPaths_def parseTrim_def truthy_def Let_def
           split: option.splits)

lemmas task_eval = demo_opts_def demo_state_def mkdirSync_def existsSync_def locate_def
  emit_def Let_def prepare_def
  probeStage_def frameStage_def tempCoverPath_def coverTime_def nullish_def truthy_def
  attempt_def toMp3_def checkInput_def onProgress_def unlinkSync_def
  retryLoop.simps js_max_def to_double_numeral
  demo_world_def demo_extractFrame_def demo_run_def failing_run_def demo_video_def
  toMp3_command_output getShortPathIfAscii_def demo_resolve_def encodeError_def
  js_includes_def errorText_def str_def

text \<open>
  A run that encodes: one start event, the percentages 0, 50 and 100 as the engine
  reported them, one done event; the temporary cover is gone.
\<close>

lemma demo_task_success:
  "map_option (\<lambda>(r, s). (r, events s,
        files (fs s) (str ''/out/.tf-a1b2c3d4e5f6.cover.jpg'')))
     (convertTask demo_world demo_opts False \<lparr>trim_start = None, trim_end = None\<rparr> 1
        (str ''/in/song.mp4'') (demo_state [str ''/in/song.mp4'' \<mapsto> demo_video]))
   = Some (\<lparr>res_input = str ''/in/song.mp4'', res_output = Some (str ''/out/song.mp3''),
            res_ok = True, res_error = None\<rparr>,
           [FileStart (str ''/in/song.mp4'') 0 1 (str ''/out/song.mp3''),
            FileProgress (str ''/in/song.mp4'') 0,
            FileProgress (str ''/in/song.mp4'') 50,
            FileProgress (str ''/in/song.mp4'') 100,
            FileDone (str ''/in/song.mp4'') (str ''/out/song.mp3'') True None],
           None)"
proof -
  have e: "convertFn demo_world (extOut (format demo_opts)) = ToMp3"
    by (rule demo_enc) (simp add: demo_world_def)
  have b: "basename demo_world (str ''/in/song.mp4'') (extname demo_world (str ''/in/song.mp4''))
             = str ''song''"
    using demo_base by (simp add: demo_world_def)
  show ?thesis
    unfolding convertTask_def demo_out demo_outDir pipeline_def e b
    by (simp add: task_eval)
qed

text \<open>
  The same request when every encoding run fails, from any state that holds the input and
  not the output: the task reports the failure, the output is still missing, and the
  extracted cover is on disk.
\<close>

lemma failing_task:
  assumes "files (fs st) (str ''/in/song.mp4'') = Some demo_video"
    and "files (fs st) (str ''/out/song.mp3'') = None"
    and "str ''/out/song.mp3'' \<notin> dirs (fs st)"
  shows "\<exists>st'. convertTask failing_world demo_opts False \<lparr>trim_start = None, trim_end = None\<rparr> 1
        (str ''/in/song.mp4'') st
      = Some (\<lparr>res_input = str ''/in/song.mp4'', res_output = Some (str ''/out/song.mp3''),
            res_ok = False,
            res_error = Some (str ''FFmpeg error: Conversion failed!. Input: /in/song.mp4, Output: /out/song.mp3'')\<rparr>, st')
      \<and> files (fs st') (str ''/in/song.mp4'') = Some demo_video
      \<and> files (fs st') (str ''/out/song.mp3'') = None
      \<and> str ''/out/song.mp3'' \<notin> dirs (fs st')
      \<and> files (fs st') (str ''/out/.tf-a1b2c3d4e5f6.cover.jpg'') = Some demo_picture"
proof -
  have e: "convertFn failing_world (extOut (format demo_opts)) = ToMp3"
    by (rule demo_enc) (simp add: failing_world_def demo_world_def)
  have b: "basename failing_world (str ''/in/song.mp4'')
             (extname failing_world (str ''/in/song.mp4'')) = str ''song''"
    using demo_base by (simp add: failing_world_def demo_world_def)
  have a: "files (fs st) [47, 105, 110, 47, 115, 111, 110, 103, 46, 109, 112, 52]
             = Some demo_video"
    "files (fs st) [47, 111, 117, 116, 47, 115, 111, 110, 103, 46, 109, 112, 51] = None"
    "[47, 111, 117, 116, 47, 115, 111, 110, 103, 46, 109, 112, 51] \<notin> dirs (fs st)"
    using assms by (simp_all add: str_def)
  show ?thesis
    unfolding convertTask_def demo_out demo_outDir pipeline_def e b
    using a by (simp add: task_eval failing_world_def)
qed

lemma failing_run:
  assumes "files (fs st) (str ''/in/song.mp4'') = Some demo_video"
    and "files (fs st) (str ''/out/song.mp3'') = None"
    and "str ''/out/song.mp3'' \<notin> dirs (fs st)"
  shows "\<exists>st'. convertPaths failing_world [str ''/in/song.mp4''] demo_opts st
      = Some (Inr [\<lparr>res_input = str ''/in/song.mp4'', res_output = Some (str ''/out/song.mp3''),
                 res_ok = False,
                 res_error = Some (str ''FFmpeg error: Conversion failed!. Input: /in/song.mp4, Output: /out/song.mp3'')\<rparr>],
              st')
      \<and> files (fs st') (str ''/in/song.mp4'') = Some demo_video
      \<and> files (fs st') (str ''/out/song.mp3'') = None
      \<and> str ''/out/song.mp3'' \<notin> dirs (fs st')
      \<and> files (fs st') (str ''/out/.tf-a1b2c3d4e5f6.cover.jpg'') = Some demo_picture"
proof -
  have c: "resolveCandidates failing_world (fs st) [str ''/in/song.mp4''] = [str ''/in/song.mp4'']"
    using assms(1) by (rule demo_candidates)
  have p: "convertPaths failing_world [str ''/in/song.mp4''] demo_opts st
           = map_option (\<lambda>(r, s). (Inr [r], s))
               (convertTask failing_world demo_opts False \<lparr>trim_start = None, trim_end = None\<rparr> 1
                  (str ''/in/song.mp4'') st)"
    by (rule convertPaths_single [OF c]) (simp_all add: demo_opts_def)
  from failing_task [OF assms] show ?thesis
    unfolding p by auto
qed

text \<open>The same request when the output is already there.\<close>

lemma demo_task_skip:
  "map_option (\<lambda>(r, s). (r, events s, calls s))
     (convertTask demo_world demo_opts False \<lparr>trim_start = None, trim_end = None\<rparr> 1
        (str ''/in/song.mp4'')
        (demo_state [str ''/in/song.mp4'' \<mapsto> demo_video, str ''/out/song.mp3'' \<mapsto> demo_audio]))
   = Some (\<lparr>res_input = str ''/in/song.mp4'', res_output = Some (str ''/out/song.mp3''),
            res_ok = True, res_error = None\<rparr>, [], [])"
  unfolding convertTask_def demo_out demo_outDir
  by (simp add: task_eval)

subsection \<open>Concurrency bound\<close>

lemma baseConc_clamp:
  assumes "requested \<noteq> Some NaN"
  shows "Some (baseConc requested n)
           = map_option Num
               (clamp (case requested of Some c \<Rightarrow> c | None \<Rightarrow> Num (of_nat (n div 2))) 1 64)"
proof (cases requested)
  case None
  then show ?thesis by (simp add: baseConc_def js_max_def js_min_def)
next
  case (Some c)
  with assms show ?thesis
    by (cases c) (auto simp: baseConc_def js_max_def js_min_def)
qed

lemma clamp_range: "clamp x lo hi = Some r \<Longrightarrow> lo \<le> hi \<Longrightarrow> lo \<le> r \<and> r \<le> hi"
  by (cases x) (auto split: if_splits)

lemma cap_min:
  "1 \<le> b \<Longrightarrow> Num (cap thr b)
     = (if thr = Some Low then js_min (Num b) (Num 1)
        else if thr = Some Medium then js_min (Num b) (Num 2) else Num b)"
  by (cases "(thr, b)" rule: cap.cases) (auto simp: js_min_def)

text \<open>
  C4 (amended). For every request whose requested concurrency is absent or a number other
  than NaN, the effective concurrency bound equals the clamp to the range [1,64] of the
  requested concurrency, or of half the available processing units when no concurrency is
  requested, further capped to 1 when throttle is \<open>low\<close> and to 2 when throttle is \<open>medium\<close>,
  and left unchanged when throttle is \<open>off\<close> or absent; it is a number of [1,64]. A request
  with concurrency 4 and throttle \<open>low\<close> runs with an effective bound of 1.
\<close>

theorem effectiveConcurrency_spec:
  assumes "requested \<noteq> Some NaN"
  shows "Some (effectiveConcurrency requested thr n)
           = map_option Num (spec_concurrency requested thr n)
         \<and> (\<exists>r. effectiveConcurrency requested thr n = Num r \<and> 1 \<le> r \<and> r \<le> 64)
         \<and> effectiveConcurrency (Some (Num 4)) (Some Low) n = Num 1"
proof -
  from baseConc_clamp [OF assms, of n] obtain b where
    b: "baseConc requested n = Num b"
       "clamp (case requested of Some c \<Rightarrow> c | None \<Rightarrow> Num (of_nat (n div 2))) 1 64 = Some b"
    by (cases "clamp (case requested of Some c \<Rightarrow> c | None \<Rightarrow> Num (of_nat (n div 2))) 1 64")
      auto
  from clamp_range [OF b(2)] have r: "1 \<le> b" "b \<le> 64" by auto
  have e: "effectiveConcurrency requested thr n = Num (cap thr b)"
    by (simp add: effectiveConcurrency_def b(1) cap_min [OF r(1)])
  have "1 \<le> cap thr b \<and> cap thr b \<le> 64"
    using r by (cases "(thr, b)" rule: cap.cases) auto
  moreover have "effectiveConcurrency (Some (Num 4)) (Some Low) n = Num 1"
    by (simp add: effectiveConcurrency_def baseConc_def js_max_def js_min_def)
  ultimately show ?thesis
    by (simp add: e spec_concurrency_def b(2))
qed

text \<open>The theorem at concurrency 4 and throttle \<open>low\<close> on eight processing units.\<close>

theorem effectiveConcurrency_spec_witness:
  "Some (Num 4) \<noteq> Some NaN
   \<and> Some (effectiveConcurrency (Some (Num 4)) (Some Low) 8)
       = map_option Num (spec_concurrency (Some (Num 4)) (Some Low) 8)
   \<and> effectiveConcurrency (Some (Num 4)) (Some Low) 8 = Num 1
   \<and> spec_concurrency (Some (Num 4)) (Some Low) 8 = Some 1"
  using effectiveConcurrency_spec [of "Some (Num 4)" "Some Low" 8]
  by (simp add: spec_concurrency_def)

text \<open>
  The claim as it stands fails for the request the command line builds from
  \<^verbatim>\<open>-C abc\<close>: \<^verbatim>\<open>parseInt\<close> gives NaN, which \<^verbatim>\<open>Math.min\<close> and \<^verbatim>\<open>Math.max\<close> hand on, so the
  bound is NaN under every throttle tier: not 1 under \<open>low\<close>, and no number of [1,64].
\<close>

theorem effectiveConcurrency_nan:
  "effectiveConcurrency (Some NaN) (Some Low) 8 = NaN
   \<and> effectiveConcurrency (Some NaN) (Some Low) 8 \<noteq> Num 1
   \<and> effectiveConcurrency (Some NaN) (Some Medium) 8 = NaN
   \<and> effectiveConcurrency (Some NaN) (Some Off) 8 = NaN
   \<and> effectiveConcurrency (Some NaN) None 8 = NaN
   \<and> Some (effectiveConcurrency (Some NaN) (Some Low) 8)
       \<noteq> map_option Num (spec_concurrency (Some NaN) (Some Low) 8)"
  by (simp add: effectiveConcurrency_def baseConc_def js_max_def js_min_def
      spec_concurrency_def)
subsection \<open>Metadata merge\<close>

lemma keys_cover: "str ''coverImagePath'' \<notin> set keys"
  by (simp add: keys_def str_def)

lemma assignEach_other: "k \<notin> set ks \<Longrightarrow> assignEach f ks m0 k = m0 k"
  by (induction ks arbitrary: m0) auto

lemma assignEach_in: "k \<in> set ks \<Longrightarrow> assignEach f ks m0 k = f k"
proof (induction ks arbitrary: m0)
  case Nil
  then show ?case by simp
next
  case (Cons a ks)
  show ?case
  proof (cases "k \<in> set ks")
    case True
    then show ?thesis using Cons.IH by simp
  next
    case False
    then have "k = a" using Cons.prems by simp
    then show ?thesis using False by (simp add: assignEach_other)
  qed
qed

lemma mergeMetadata_key:
  assumes "k \<in> set keys"
  shows "mergeMetadata pd autoTags fileNameTags md coverPath k =
        (let manual = (case md of Some m \<Rightarrow> m | None \<Rightarrow> Map.empty) in
         if pd
         then (case detected autoTags fileNameTags k of Some v \<Rightarrow> Some v | None \<Rightarrow> manual k)
         else (case manual k of Some v \<Rightarrow> Some v | None \<Rightarrow> detected autoTags fileNameTags k))"
proof -
  from assms have "k \<noteq> str ''coverImagePath''" using keys_cover by auto
  then show ?thesis
    using assignEach_in [OF assms] by (simp add: mergeMetadata_def Let_def nullish_def)
qed

lemma mergeMetadata_cover:
  "mergeMetadata pd autoTags fileNameTags md coverPath (str ''coverImagePath'') = coverPath"
  by (simp add: mergeMetadata_def Let_def)

text \<open>A probed tag that is a non-empty string is the detected value of its field.\<close>

lemma detected_probed:
  assumes "k \<in> set keys" and "autoTags k = Some v" and "v \<noteq> []"
  shows "detected autoTags fileNameTags k = Some v"
proof -
  from assms(1) consider "k = str ''title''" | "k = str ''artist''" | "k = str ''album''"
    | "k = str ''genre''" | "k = str ''date''" | "k = str ''track''" | "k = str ''comment''"
    by (auto simp: keys_def)
  then show ?thesis
    using assms(2,3) by cases (simp_all add: detected_def js_or_def str_def)
qed

text \<open>With a cover of the user's, the probe and the frame fallback leave the cover alone.\<close>

lemma prepare_user_cover:
  assumes "truthy (case metadata opts of Some m \<Rightarrow> m (str ''coverImagePath'') | None \<Rightarrow> None)"
  shows "fst (prepare W opts input outD st) (str ''coverImagePath'')
           = (case metadata opts of Some m \<Rightarrow> m (str ''coverImagePath'') | None \<Rightarrow> None)
         \<and> fst (snd (prepare W opts input outD st)) = None"
  using assms
  by (auto simp: prepare_def probeStage_def frameStage_def mergeMetadata_cover Let_def
           split: sum.splits option.splits prod.splits)

text \<open>
  C5 (amended). For each of the seven tag fields (title, artist, album, genre, date, track,
  comment) of the merged bundle: with \<open>preferDetected\<close> the detected value is chosen if present,
  else the user override; without it the user override is chosen if present, else the
  detected value. The detected value of a field is the probed tag when that is a non-empty
  string, and for title and artist the value guessed from the file name when nothing was
  probed. A user-supplied title under \<open>preferDetected = false\<close> is returned unchanged,
  whatever was detected. The field \<open>coverImagePath\<close> does not follow \<open>preferDetected\<close>: it is
  the cover path the task has settled, which is the user's cover whenever the user supplies
  one, and then no cover is extracted.
\<close>

theorem mergeMetadata_precedence:
  "(\<forall>k \<in> set keys.
      mergeMetadata pd autoTags fileNameTags md coverPath k =
        (let manual = (case md of Some m \<Rightarrow> m | None \<Rightarrow> Map.empty) in
         if pd
         then (case detected autoTags fileNameTags k of Some v \<Rightarrow> Some v | None \<Rightarrow> manual k)
         else (case manual k of Some v \<Rightarrow> Some v | None \<Rightarrow> detected autoTags fileNameTags k)))
   \<and> (\<forall>k \<in> set keys. \<forall>v. autoTags k = Some v \<and> v \<noteq> []
         \<longrightarrow> detected autoTags fileNameTags k = Some v)
   \<and> detected Map.empty fileNameTags (str ''title'') = fileNameTags (str ''title'')
   \<and> detected Map.empty fileNameTags (str ''artist'') = fileNameTags (str ''artist'')
   \<and> (\<forall>m t. m (str ''title'') = Some t \<longrightarrow>
        mergeMetadata False autoTags fileNameTags (Some m) coverPath (str ''title'') = Some t)
   \<and> mergeMetadata pd autoTags fileNameTags md coverPath (str ''coverImagePath'') = coverPath
   \<and> (truthy (case metadata opts of Some m \<Rightarrow> m (str ''coverImagePath'') | None \<Rightarrow> None)
        \<longrightarrow> fst (prepare W opts input outD st) (str ''coverImagePath'')
              = (case metadata opts of Some m \<Rightarrow> m (str ''coverImagePath'') | None \<Rightarrow> None)
            \<and> fst (snd (prepare W opts input outD st)) = None)"
proof (intro conjI ballI allI impI)
  fix k assume "k \<in> set keys"
  then show "mergeMetadata pd autoTags fileNameTags md coverPath k =
        (let manual = (case md of Some m \<Rightarrow> m | None \<Rightarrow> Map.empty) in
         if pd
         then (case detected autoTags fileNameTags k of Some v \<Rightarrow> Some v | None \<Rightarrow> manual k)
         else (case manual k of Some v \<Rightarrow> Some v | None \<Rightarrow> detected autoTags fileNameTags k))"
    by (rule mergeMetadata_key)
next
  fix k v assume "k \<in> set keys" and "autoTags k = Some v \<and> v \<noteq> []"
  then show "detected autoTags fileNameTags k = Some v"
    using detected_probed by blast
next
  show "detected Map.empty fileNameTags (str ''title'') = fileNameTags (str ''title'')"
    by (simp add: detected_def js_or_def)
  show "detected Map.empty fileNameTags (str ''artist'') = fileNameTags (str ''artist'')"
    by (simp add: detected_def js_or_def str_def)
next
  fix m :: tags and t :: jsstring
  assume t: "m (str ''title'') = Some t"
  have k: "str ''title'' \<in> set keys" by (simp add: keys_def)
  show "mergeMetadata False autoTags fileNameTags (Some m) coverPath (str ''title'') = Some t"
    using t by (simp add: mergeMetadata_key [OF k])
next
  show "mergeMetadata pd autoTags fileNameTags md coverPath (str ''coverImagePath'') = coverPath"
    by (rule mergeMetadata_cover)
next
  assume "truthy (case metadata opts of Some m \<Rightarrow> m (str ''coverImagePath'') | None \<Rightarrow> None)"
  then show "fst (prepare W opts input outD st) (str ''coverImagePath'')
              = (case metadata opts of Some m \<Rightarrow> m (str ''coverImagePath'') | None \<Rightarrow> None)"
    and "fst (snd (prepare W opts input outD st)) = None"
    using prepare_user_cover by blast+
qed

text \<open>
  The theorem at a probed title \<open>Probed\<close> and a user title \<open>Mine\<close>, under both values of
  \<open>preferDetected\<close>, and at a request that brings its own cover for a file with an attached
  picture.
\<close>

theorem mergeMetadata_precedence_witness:
  "str ''title'' \<in> set keys
   \<and> [str ''title'' \<mapsto> str ''Mine''] (str ''title'') = Some (str ''Mine'')
   \<and> [str ''title'' \<mapsto> str ''Probed''] (str ''title'') = Some (str ''Probed'')
   \<and> str ''Probed'' \<noteq> []
   \<and> truthy (case metadata (demo_opts\<lparr>preferDetected := Some True,
                       metadata := Some [str ''coverImagePath'' \<mapsto> str ''/covers/mine.jpg'']\<rparr>) of
               Some m \<Rightarrow> m (str ''coverImagePath'') | None \<Rightarrow> None)
   \<and> mergeMetadata False [str ''title'' \<mapsto> str ''Probed''] Map.empty
        (Some [str ''title'' \<mapsto> str ''Mine'']) None (str ''title'') = Some (str ''Mine'')
   \<and> mergeMetadata True [str ''title'' \<mapsto> str ''Probed''] Map.empty
        (Some [str ''title'' \<mapsto> str ''Mine'']) None (str ''title'') = Some (str ''Probed'')
   \<and> fst (prepare picture_world
             (demo_opts\<lparr>preferDetected := Some True,
                        metadata := Some [str ''coverImagePath'' \<mapsto> str ''/covers/mine.jpg'']\<rparr>)
             (str ''/in/song.mp4'') (str ''/out'')
             (demo_state [str ''/in/song.mp4'' \<mapsto> demo_video])) (str ''coverImagePath'')
       = Some (str ''/covers/mine.jpg'')"
proof -
  define opts where "opts = demo_opts\<lparr>preferDetected := Some True,
                       metadata := Some [str ''coverImagePath'' \<mapsto> str ''/covers/mine.jpg'']\<rparr>"
  have k: "str ''title'' \<in> set keys" by (simp add: keys_def)
  have m: "[str ''title'' \<mapsto> str ''Mine''] (str ''title'') = Some (str ''Mine'')" by simp
  have p: "[str ''title'' \<mapsto> str ''Probed''] (str ''title'') = Some (str ''Probed'')" by simp
  have n: "str ''Probed'' \<noteq> []" by (simp add: str_def)
  have c: "(case metadata opts of Some m \<Rightarrow> m (str ''coverImagePath'') | None \<Rightarrow> None)
             = Some (str ''/covers/mine.jpg'')"
    by (simp add: opts_def)
  have u: "truthy (case metadata opts of Some m \<Rightarrow> m (str ''coverImagePath'') | None \<Rightarrow> None)"
    unfolding c by (simp add: truthy_def str_def)
  note f = mergeMetadata_precedence
         [where pd = False and autoTags = "[str ''title'' \<mapsto> str ''Probed'']"
            and fileNameTags = Map.empty and md = "Some [str ''title'' \<mapsto> str ''Mine'']"
            and coverPath = None and opts = opts and W = picture_world
            and input = "str ''/in/song.mp4''" and outD = "str ''/out''"
            and st = "demo_state [str ''/in/song.mp4'' \<mapsto> demo_video]"]
  note g = mergeMetadata_precedence
         [where pd = True and autoTags = "[str ''title'' \<mapsto> str ''Probed'']"
            and fileNameTags = Map.empty and md = "Some [str ''title'' \<mapsto> str ''Mine'']"
            and coverPath = None and opts = opts and W = picture_world
            and input = "str ''/in/song.mp4''" and outD = "str ''/out''"
            and st = "demo_state [str ''/in/song.mp4'' \<mapsto> demo_video]"]
  have d: "detected [str ''title'' \<mapsto> str ''Probed''] Map.empty (str ''title'')
             = Some (str ''Probed'')"
    using g k p n by blast
  have f1: "mergeMetadata False [str ''title'' \<mapsto> str ''Probed''] Map.empty
        (Some [str ''title'' \<mapsto> str ''Mine'']) None (str ''title'') = Some (str ''Mine'')"
    using f m by blast
  have "mergeMetadata True [str ''title'' \<mapsto> str ''Probed''] Map.empty
        (Some [str ''title'' \<mapsto> str ''Mine'']) None (str ''title'')
        = (case detected [str ''title'' \<mapsto> str ''Probed''] Map.empty (str ''title'') of
             Some v \<Rightarrow> Some v | None \<Rightarrow> [str ''title'' \<mapsto> str ''Mine''] (str ''title''))"
    using g k by (simp add: Let_def)
  then have t: "mergeMetadata True [str ''title'' \<mapsto> str ''Probed''] Map.empty
        (Some [str ''title'' \<mapsto> str ''Mine'']) None (str ''title'') = Some (str ''Probed'')"
    using d by simp
  have "fst (prepare picture_world opts (str ''/in/song.mp4'') (str ''/out'')
             (demo_state [str ''/in/song.mp4'' \<mapsto> demo_video])) (str ''coverImagePath'')
        = (case metadata opts of Some m \<Rightarrow> m (str ''coverImagePath'') | None \<Rightarrow> None)"
    using g u by blast
  then have v: "fst (prepare picture_world opts (str ''/in/song.mp4'') (str ''/out'')
             (demo_state [str ''/in/song.mp4'' \<mapsto> demo_video])) (str ''coverImagePath'')
        = Some (str ''/covers/mine.jpg'')"
    unfolding c .
  show ?thesis
    using k m p n u f1 t v unfolding opts_def by blast
qed

text \<open>
  The claim as it stands fails for the field \<open>coverImagePath\<close>. The probe reports an attached
  picture and \<open>preferDetected\<close> is set, yet the merged bundle holds the user's cover; without
  a cover of the user's the same request takes the attached picture, so a detected value
  was there to be chosen.
\<close>

theorem user_cover_beats_detected:
  "fst (prepare picture_world
          (demo_opts\<lparr>preferDetected := Some True,
                     metadata := Some [str ''coverImagePath'' \<mapsto> str ''/covers/mine.jpg'']\<rparr>)
          (str ''/in/song.mp4'') (str ''/out'')
          (demo_state [str ''/in/song.mp4'' \<mapsto> demo_video])) (str ''coverImagePath'')
     = Some (str ''/covers/mine.jpg'')
   \<and> fst (prepare picture_world (demo_opts\<lparr>preferDetected := Some True\<rparr>)
          (str ''/in/song.mp4'') (str ''/out'')
          (demo_state [str ''/in/song.mp4'' \<mapsto> demo_video])) (str ''coverImagePath'')
     = Some (str ''/out/.tf-a1b2c3d4e5f6.cover.attached.jpg'')"
proof -
  note c = mergeMetadata_cover [unfolded str_def, simplified]
  show ?thesis
    by (simp add: task_eval picture_world_def demo_extractAttachedPicture_def c)
qed
subsection \<open>Filename heuristic\<close>













































subsection \<open>Output naming\<close>

lemma split_first_Some: "split_first pat s = Some (b, a) \<Longrightarrow> s = b @ pat @ a"
proof (induction s arbitrary: b)
  case Nil
  then show ?case by (auto split: if_splits)
next
  case (Cons c cs)
  show ?case
  proof (cases "prefix pat (c # cs)")
    case True
    then have ba: "b = []" "a = drop (length pat) (c # cs)"
      using Cons.prems by auto
    from True obtain zs where "c # cs = pat @ zs" by (auto simp: prefix_def)
    then show ?thesis using ba by simp
  next
    case False
    then obtain b' where "split_first pat cs = Some (b', a)" and "b = c # b'"
      using Cons.prems by auto
    then show ?thesis using Cons.IH by simp
  qed
qed

lemma js_replace_cases:
  "js_replace pat rep s = s
   \<or> (\<exists>b a r. s = b @ pat @ a \<and> js_replace pat rep s = b @ r @ a)"
  by (auto simp: js_replace_def split: option.splits dest: split_first_Some)

lemma is_token_iff:
  "is_token tok \<longleftrightarrow>
     (\<exists>body. tok = 123 # body @ [125] \<and> 123 \<notin> set body \<and> 125 \<notin> set body)"
proof
  assume "is_token tok"
  then obtain r where r: "tok = 123 # r" "r \<noteq> []" "last r = 125"
    "123 \<notin> set (butlast r)" "125 \<notin> set (butlast r)"
    by (auto simp: is_token_def split: list.splits)
  then have "r = butlast r @ [125]"
    using append_butlast_last_id [of r] by simp
  then have "tok = 123 # butlast r @ [125]" using r(1) by simp
  then show "\<exists>body. tok = 123 # body @ [125] \<and> 123 \<notin> set body \<and> 125 \<notin> set body"
    using r(4,5) by blast
next
  assume "\<exists>body. tok = 123 # body @ [125] \<and> 123 \<notin> set body \<and> 125 \<notin> set body"
  then show "is_token tok" by (auto simp: is_token_def)
qed

lemma tokens_are_tokens: "tok \<in> set tokens \<Longrightarrow> is_token tok"
  by (auto simp: tokens_def is_token_def str_def)

lemma occurrences_append_ge:
  "occurrences tok a + occurrences tok b \<le> occurrences tok (a @ b)"
proof (induction a)
  case Nil
  then show ?case by simp
next
  case (Cons c a)
  have "prefix tok (c # a) \<Longrightarrow> prefix tok (c # a @ b)"
    using prefix_prefix [of tok "c # a" b] by simp
  then show ?case using Cons by auto
qed

lemma occurrences_skip:
  assumes "is_token tok" and "123 \<notin> set xs"
  shows "occurrences tok (xs @ ys) = occurrences tok ys"
  using assms(2)
proof (induction xs)
  case Nil
  then show ?case by simp
next
  case (Cons x xs)
  have "\<not> prefix tok (x # xs @ ys)"
    using assms(1) Cons.prems by (auto simp: is_token_iff)
  then show ?case using Cons by simp
qed

lemma first_split_unique:
  "x \<notin> set b \<Longrightarrow> x \<notin> set b' \<Longrightarrow> b' @ x # p = b @ x # z \<Longrightarrow> b' = b"
proof (induction b arbitrary: b')
  case Nil
  then show ?case by (cases b') auto
next
  case (Cons c b)
  then show ?case by (cases b') auto
qed

lemma token_prefix_token:
  assumes "is_token tok" and "is_token tok'" and "prefix tok (tok' @ post)"
  shows "tok = tok'"
proof -
  obtain b where b: "tok = 123 # b @ [125]" "125 \<notin> set b"
    using assms(1) by (auto simp: is_token_iff)
  obtain b' where b': "tok' = 123 # b' @ [125]" "125 \<notin> set b'"
    using assms(2) by (auto simp: is_token_iff)
  from assms(3) have "prefix (b @ [125]) (b' @ 125 # post)"
    using b b' by simp
  then obtain zs where zs: "b' @ 125 # post = b @ 125 # zs"
    by (auto simp: prefix_def)
  then have "b' = b"
    by (rule first_split_unique [OF b(2) b'(2)])
  then show ?thesis using b b' by simp
qed

lemma token_no_cross:
  assumes "is_token tok" and "is_token tok'" and "prefix tok (c # pre @ tok' @ post)"
  shows "prefix tok (c # pre)"
proof (rule ccontr)
  assume n: "\<not> prefix tok (c # pre)"
  from assms(3) have "prefix tok ((c # pre) @ tok' @ post)" by simp
  then obtain us where us: "tok = (c # pre) @ us" "prefix us (tok' @ post)"
    using n prefix_append [of tok "c # pre" "tok' @ post"] by blast
  have "us \<noteq> []" using us(1) n by auto
  moreover obtain b' where "tok' = 123 # b'"
    using assms(2) by (auto simp: is_token_iff)
  ultimately have "123 \<in> set us"
    using us(2) by (cases us) auto
  then have "123 \<in> set (tl tok)" using us(1) by simp
  then show False using assms(1) by (auto simp: is_token_iff)
qed

lemma occurrences_token_split:
  assumes "is_token tok" and "is_token tok'"
  shows "occurrences tok (pre @ tok' @ post)
           \<le> occurrences tok pre + (if tok = tok' then 1 else 0) + occurrences tok post"
proof (induction pre)
  case Nil
  obtain b' where b': "tok' = 123 # b' @ [125]" "123 \<notin> set b'"
    using assms(2) by (auto simp: is_token_iff)
  then have "123 \<notin> set (b' @ [125])" by simp
  then have "occurrences tok ((b' @ [125]) @ post) = occurrences tok post"
    using occurrences_skip [OF assms(1)] by blast
  then have "occurrences tok (tok' @ post)
               = (if prefix tok (tok' @ post) then 1 else 0) + occurrences tok post"
    using b'(1) by simp
  moreover have "prefix tok (tok' @ post) \<Longrightarrow> tok = tok'"
    using token_prefix_token [OF assms] by blast
  ultimately show ?case by auto
next
  case (Cons c pre)
  have "prefix tok (c # pre @ tok' @ post) \<Longrightarrow> prefix tok (c # pre)"
    using token_no_cross [OF assms] by blast
  then show ?case using Cons by auto
qed

lemma js_replace_keeps:
  assumes "is_token tok" and "is_token tok'"
  shows "occurrences tok s
           \<le> occurrences tok (js_replace tok' rep s) + (if tok = tok' then 1 else 0)"
proof -
  consider "js_replace tok' rep s = s"
    | b a r where "s = b @ tok' @ a" "js_replace tok' rep s = b @ r @ a"
    using js_replace_cases by blast
  then show ?thesis
  proof cases
    case 1
    then show ?thesis by simp
  next
    case 2
    have "occurrences tok b + occurrences tok a \<le> occurrences tok (b @ r @ a)"
      using occurrences_append_ge [of tok b "r @ a"] occurrences_append_ge [of tok r a]
      by linarith
    moreover have "occurrences tok s
        \<le> occurrences tok b + (if tok = tok' then 1 else 0) + occurrences tok a"
      using occurrences_token_split [OF assms] 2(1) by simp
    ultimately show ?thesis using 2(2) by simp
  qed
qed

lemma split_first_at:
  assumes "is_token tok" and "occurrences tok pre = 0"
  shows "split_first tok (pre @ tok @ post) = Some (pre, post)"
  using assms(2)
proof (induction pre)
  case Nil
  obtain b where "tok = 123 # b @ [125]"
    using assms(1) by (auto simp: is_token_iff)
  then show ?case by simp
next
  case (Cons c pre)
  then have n: "\<not> prefix tok (c # pre)" and z: "occurrences tok pre = 0"
    by (auto split: if_splits)
  have "\<not> prefix tok (c # pre @ tok @ post)"
    using token_no_cross [OF assms(1) assms(1)] n by blast
  then show ?case using Cons.IH [OF z] by simp
qed

lemma tokens_distinct: "distinct tokens"
  by (simp add: tokens_def str_def)

text \<open>
  C10 (as amended). Each of the four tokens is substituted at most once per template:
  whatever the template and the substituted values, the expanded template still holds
  every occurrence of a token but one, and a replace call substitutes the first occurrence
  of its token in the string it is given, keeping the text before and after it. (The
  extension stripping that follows removes the text after the last dot, tokens included.)
\<close>

theorem expandTemplate_at_most_once:
  "tok \<in> set tokens \<Longrightarrow>
     occurrences tok tpl
       \<le> Suc (occurrences tok (expandTemplate render tpl base ext br vbr))
     \<and> (occurrences tok pre = 0 \<longrightarrow>
          js_replace tok rep (pre @ tok @ post) = pre @ get_subst tok pre post rep @ post)"
proof -
  assume t: "tok \<in> set tokens"
  then have tk: "is_token tok" by (rule tokens_are_tokens)
  have k1: "is_token (str ''{basename}'')" and k2: "is_token (str ''{ext}'')"
    and k3: "is_token (str ''{bitrate}'')" and k4: "is_token (str ''{vbr}'')"
    by (simp_all add: tokens_are_tokens tokens_def)
  define r2 where "r2 = rx_replace_first rx_leading_dot [] ext"
  define r3 where "r3 = (case br of Some b \<Rightarrow> render b | None \<Rightarrow> [])"
  define r4 where "r4 = (case vbr of Some v \<Rightarrow> render v | None \<Rightarrow> [])"
  define s1 where "s1 = js_replace (str ''{basename}'') base tpl"
  define s2 where "s2 = js_replace (str ''{ext}'') r2 s1"
  define s3 where "s3 = js_replace (str ''{bitrate}'') r3 s2"
  define s4 where "s4 = js_replace (str ''{vbr}'') r4 s3"
  have e: "expandTemplate render tpl base ext br vbr = s4"
    by (simp add: expandTemplate_def s4_def s3_def s2_def s1_def r2_def r3_def r4_def)
  have d1: "occurrences tok tpl
              \<le> occurrences tok s1 + (if tok = str ''{basename}'' then 1 else 0)"
    unfolding s1_def by (rule js_replace_keeps [OF tk k1])
  have d2: "occurrences tok s1 \<le> occurrences tok s2 + (if tok = str ''{ext}'' then 1 else 0)"
    unfolding s2_def by (rule js_replace_keeps [OF tk k2])
  have d3: "occurrences tok s2 \<le> occurrences tok s3 + (if tok = str ''{bitrate}'' then 1 else 0)"
    unfolding s3_def by (rule js_replace_keeps [OF tk k3])
  have d4: "occurrences tok s3 \<le> occurrences tok s4 + (if tok = str ''{vbr}'' then 1 else 0)"
    unfolding s4_def by (rule js_replace_keeps [OF tk k4])
  have ne: "str ''{basename}'' \<noteq> str ''{ext}''" "str ''{basename}'' \<noteq> str ''{bitrate}''"
    "str ''{basename}'' \<noteq> str ''{vbr}''" "str ''{ext}'' \<noteq> str ''{bitrate}''"
    "str ''{ext}'' \<noteq> str ''{vbr}''" "str ''{bitrate}'' \<noteq> str ''{vbr}''"
    by (simp_all add: str_def)
  from t consider "tok = str ''{basename}''" | "tok = str ''{ext}''"
    | "tok = str ''{bitrate}''" | "tok = str ''{vbr}''"
    by (auto simp: tokens_def)
  then have "occurrences tok tpl \<le> Suc (occurrences tok s4)"
    using d1 d2 d3 d4 ne by cases (simp_all split: if_splits)
  moreover have "occurrences tok pre = 0 \<Longrightarrow>
      js_replace tok rep (pre @ tok @ post) = pre @ get_subst tok pre post rep @ post"
    using split_first_at [OF tk] by (simp add: js_replace_def)
  ultimately show ?thesis using e by simp
qed

lemma ext_without_dot: "rx_replace_first rx_leading_dot [] (str ''.mp4'') = str ''mp4''"
  by (simp add: rx_eval rx_leading_dot_def)

lemma expand_twice_dash:
  "expandTemplate demo_numberToString (str ''{basename}-{basename}'') (str ''song'')
       (str ''.mp4'') (Some (Num 192)) None
     = str ''song-{basename}''"
  unfolding expandTemplate_def ext_without_dot
  by (simp add: js_replace_def str_def)

theorem expandTemplate_at_most_once_witness:
  "str ''{basename}'' \<in> set tokens
   \<and> occurrences (str ''{basename}'') (str ''{basename}-{basename}'') = 2
   \<and> occurrences (str ''{basename}'')
        (expandTemplate demo_numberToString (str ''{basename}-{basename}'') (str ''song'')
           (str ''.mp4'') (Some (Num 192)) None) = 1
   \<and> occurrences (str ''{basename}'') [] = 0
   \<and> js_replace (str ''{basename}'') (str ''song'') ([] @ str ''{basename}'' @ str ''-{basename}'')
       = [] @ str ''song'' @ str ''-{basename}''"
proof -
  have m: "str ''{basename}'' \<in> set tokens" by (simp add: tokens_def)
  have two: "occurrences (str ''{basename}'') (str ''{basename}-{basename}'') = 2"
    by (simp add: str_def)
  have le: "occurrences (str ''{basename}'')
        (expandTemplate demo_numberToString (str ''{basename}-{basename}'') (str ''song'')
           (str ''.mp4'') (Some (Num 192)) None) \<le> 1"
    unfolding expand_twice_dash by (simp add: str_def)
  have z: "occurrences (str ''{basename}'') [] = 0" by simp
  have g: "get_subst (str ''{basename}'') [] (str ''-{basename}'') (str ''song'') = str ''song''"
    by (simp add: str_def)
  from expandTemplate_at_most_once [OF m, where tpl = "str ''{basename}-{basename}''"
         and base = "str ''song''" and ext = "str ''.mp4''" and br = "Some (Num 192)"
         and vbr = None and pre = "[]" and rep = "str ''song''" and post = "str ''-{basename}''"
         and render = demo_numberToString] two le z g
  show ?thesis using m by simp
qed

lemma expand_twice_dot:
  "expandTemplate demo_numberToString (str ''{basename}.{basename}'') (str ''song'')
       (str ''.mp4'') None None
     = str ''song.{basename}''"
  unfolding expandTemplate_def ext_without_dot
  by (simp add: js_replace_def str_def)

lemma strip_twice_dot: "rx_replace_first rx_extension [] (str ''song.{basename}'') = str ''song''"
  by (simp add: rx_eval rx_extension_def)

text \<open>
  A later occurrence need not reach the file name: with template \<open>{basename}.{basename}\<close>
  and base name \<open>song\<close> the second token follows the last dot, is stripped as the
  extension, and the computed file name is \<open>song.mp3\<close>.
\<close>

theorem outputFileName_later_token_stripped:
  "occurrences (str ''{basename}'') (str ''{basename}.{basename}'') = 2
   \<and> outputFileName demo_numberToString (Some (str ''{basename}.{basename}'')) None
        (str ''song'') (str ''.mp4'') None None = str ''song.mp3''
   \<and> occurrences (str ''{basename}'') (str ''song.mp3'') = 0"
proof -
  have t: "template_or_default (Some (str ''{basename}.{basename}'')) = str ''{basename}.{basename}''"
    by (simp add: template_or_default_def truthy_def str_def)
  have "outputFileName demo_numberToString (Some (str ''{basename}.{basename}'')) None
        (str ''song'') (str ''.mp4'') None None = str ''song'' @ str ''.mp3''"
    unfolding outputFileName_def t expand_twice_dot Let_def strip_twice_dot
    by (simp add: extOut_def truthy_def)
  then show ?thesis by (simp add: str_def)
qed

subsection \<open>Input resolution\<close>

lemma uniq_set: "set (uniq seen xs) = set xs - set seen"
  by (induction seen xs rule: uniq.induct) auto

lemma uniq_distinct: "distinct (uniq seen xs)"
  by (induction seen xs rule: uniq.induct) (auto simp: uniq_set)

lemma count_list_distinct: "distinct xs \<Longrightarrow> x \<in> set xs \<Longrightarrow> count_list xs x = 1"
  by (induction xs) auto

text \<open>The loop fills \<^verbatim>\<open>direct\<close> and \<^verbatim>\<open>patterns\<close> with what the specification names.\<close>

lemma classify_spec:
  "classify W fsys inputs (direct, patterns)
     = (direct @ literal_files W fsys inputs, patterns @ glob_patterns W fsys inputs)"
proof (induction inputs arbitrary: direct patterns)
  case Nil
  then show ?case by (simp add: literal_files_def glob_patterns_def)
next
  case (Cons inp inputs)
  show ?case
    by (simp add: Cons.IH literal_files_def glob_patterns_def names_file_def written_path_def
        Let_def)
qed

lemma isMediaLike_extensions:
  "isMediaLike W p \<longleftrightarrow> toLowerCase W (extname W p) \<in> media_extensions"
  by (simp add: isMediaLike_def media_extensions_def VIDEO_EXTS_def AUDIO_EXTS_def Let_def)

lemma resolveCandidates_spec:
  "resolveCandidates W fsys inputs
     = filter (isMediaLike W) (uniq [] (literal_files W fsys inputs @ glob_files W fsys inputs))"
  by (simp add: resolveCandidates_def classify_spec glob_files_def Let_def)

text \<open>
  C9 (amended). For every input list, including lists where the same file is named by
  overlapping glob patterns or repeated literal paths, the candidate list holds each path
  text exactly once, and the extension of every candidate, in lower case, belongs to the
  allow-list. The candidates are the media paths among the literal ones and the globbed
  ones; a literal input that names a file is listed under its text resolved against the
  working directory, or under its own text when it is written as a UNC or drive path,
  once however often it is named; a path the glob expansion returns is listed once as
  well. Two different texts for one file are not merged.
\<close>

theorem resolveCandidates_unique_media:
  "distinct (resolveCandidates W fsys inputs)
   \<and> (\<forall>c \<in> set (resolveCandidates W fsys inputs).
         count_list (resolveCandidates W fsys inputs) c = 1
         \<and> toLowerCase W (extname W c) \<in> media_extensions)
   \<and> set (resolveCandidates W fsys inputs)
       = {p \<in> set (literal_files W fsys inputs) \<union> set (glob_files W fsys inputs).
            toLowerCase W (extname W p) \<in> media_extensions}
   \<and> (\<forall>inp \<in> set inputs.
         names_file W fsys inp
         \<and> toLowerCase W (extname W (written_path W inp)) \<in> media_extensions
         \<longrightarrow> count_list (resolveCandidates W fsys inputs) (written_path W inp) = 1)
   \<and> (\<forall>p \<in> set (glob_files W fsys inputs).
         toLowerCase W (extname W p) \<in> media_extensions
         \<longrightarrow> count_list (resolveCandidates W fsys inputs) p = 1)"
proof -
  let ?cands = "resolveCandidates W fsys inputs"
  have d: "distinct ?cands"
    unfolding resolveCandidates_spec by (simp add: uniq_distinct)
  have s: "set ?cands = {p \<in> set (literal_files W fsys inputs) \<union> set (glob_files W fsys inputs).
            toLowerCase W (extname W p) \<in> media_extensions}"
    unfolding resolveCandidates_spec by (auto simp: uniq_set isMediaLike_extensions)
  have c: "count_list ?cands p = 1" if "p \<in> set ?cands" for p
    using d that by (rule count_list_distinct)
  have "\<forall>c \<in> set ?cands. count_list ?cands c = 1
          \<and> toLowerCase W (extname W c) \<in> media_extensions"
    using c s by blast
  moreover have "\<forall>inp \<in> set inputs.
         names_file W fsys inp
         \<and> toLowerCase W (extname W (written_path W inp)) \<in> media_extensions
         \<longrightarrow> count_list ?cands (written_path W inp) = 1"
  proof (intro ballI impI)
    fix inp
    assume "inp \<in> set inputs"
      and "names_file W fsys inp
           \<and> toLowerCase W (extname W (written_path W inp)) \<in> media_extensions"
    then have "written_path W inp \<in> set ?cands"
      unfolding s by (auto simp: literal_files_def)
    then show "count_list ?cands (written_path W inp) = 1" by (rule c)
  qed
  moreover have "\<forall>p \<in> set (glob_files W fsys inputs).
         toLowerCase W (extname W p) \<in> media_extensions \<longrightarrow> count_list ?cands p = 1"
    using c s by blast
  ultimately show ?thesis using d s by blast
qed

text \<open>
  The theorem at a list that names one file twice and again through a pattern, a file by
  a relative path, a file that is no media file, the empty text, and a file that is not
  there.
\<close>

lemma glob_candidates:
  "resolveCandidates glob_world glob_files_on_disk
     (map str [''/m/a.mp4'', ''/m/a.mp4'', ''c.mkv'', ''/m/*'', ''/m/notes.txt'', '''',
               ''/m/missing.mp4''])
     = map str [''/m/a.mp4'', ''/work/c.mkv'', ''/m/b.MP3'']"
  by (simp add: glob_world_def glob_files_on_disk_def resolveCandidates_def
      isWindowsAbsolute_def existsSync_def locate_def isFile_def isGlob_def isMediaLike_def
      VIDEO_EXTS_def AUDIO_EXTS_def demo_paths str_def Let_def)

theorem resolveCandidates_unique_media_witness:
  "str ''c.mkv'' \<in> set (map str [''/m/a.mp4'', ''/m/a.mp4'', ''c.mkv'', ''/m/*'',
                                  ''/m/notes.txt'', '''', ''/m/missing.mp4''])
   \<and> names_file glob_world glob_files_on_disk (str ''c.mkv'')
   \<and> written_path glob_world (str ''c.mkv'') = str ''/work/c.mkv''
   \<and> toLowerCase glob_world (extname glob_world (str ''/work/c.mkv'')) \<in> media_extensions
   \<and> str ''/m/b.MP3'' \<in> set (map str [''/m/a.mp4'', ''/work/c.mkv'', ''/m/b.MP3''])
   \<and> toLowerCase glob_world (extname glob_world (str ''/m/b.MP3'')) \<in> media_extensions
   \<and> resolveCandidates glob_world glob_files_on_disk
        (map str [''/m/a.mp4'', ''/m/a.mp4'', ''c.mkv'', ''/m/*'', ''/m/notes.txt'', '''',
                  ''/m/missing.mp4''])
       = map str [''/m/a.mp4'', ''/work/c.mkv'', ''/m/b.MP3'']
   \<and> count_list (map str [''/m/a.mp4'', ''/work/c.mkv'', ''/m/b.MP3'']) (str ''/m/a.mp4'') = 1
   \<and> count_list (map str [''/m/a.mp4'', ''/work/c.mkv'', ''/m/b.MP3'']) (str ''/work/c.mkv'') = 1
   \<and> count_list (map str [''/m/a.mp4'', ''/work/c.mkv'', ''/m/b.MP3'']) (str ''/m/b.MP3'') = 1"
proof -
  define inputs where "inputs = map str [''/m/a.mp4'', ''/m/a.mp4'', ''c.mkv'', ''/m/*'',
                                        ''/m/notes.txt'', '''', ''/m/missing.mp4'']"
  define cands where "cands = map str [''/m/a.mp4'', ''/work/c.mkv'', ''/m/b.MP3'']"
  have r: "resolveCandidates glob_world glob_files_on_disk inputs = cands"
    unfolding inputs_def cands_def by (rule glob_candidates)
  have i: "str ''c.mkv'' \<in> set inputs" "str ''/m/a.mp4'' \<in> set inputs"
    by (simp_all add: inputs_def)
  have w: "written_path glob_world (str ''c.mkv'') = str ''/work/c.mkv''"
    "written_path glob_world (str ''/m/a.mp4'') = str ''/m/a.mp4''"
    by (simp_all add: written_path_def isWindowsAbsolute_def glob_world_def demo_paths str_def)
  have n: "names_file glob_world glob_files_on_disk (str ''c.mkv'')"
    "names_file glob_world glob_files_on_disk (str ''/m/a.mp4'')"
    unfolding names_file_def w
    by (simp_all add: existsSync_def isFile_def locate_def glob_world_def
        glob_files_on_disk_def demo_paths str_def)
  have e: "toLowerCase glob_world (extname glob_world (str ''/work/c.mkv'')) \<in> media_extensions"
    "toLowerCase glob_world (extname glob_world (str ''/m/a.mp4'')) \<in> media_extensions"
    by (simp_all add: media_extensions_def glob_world_def demo_paths str_def)
  have b: "str ''/m/b.MP3'' \<in> set cands" by (simp add: cands_def)
  note t = resolveCandidates_unique_media [of glob_world glob_files_on_disk inputs,
      unfolded r]
  note t2 = t [THEN conjunct2, THEN conjunct1]
  note t4 = t [THEN conjunct2, THEN conjunct2, THEN conjunct2, THEN conjunct1]
  from t2 [rule_format, OF b] have b1: "count_list cands (str ''/m/b.MP3'') = 1"
    and b2: "toLowerCase glob_world (extname glob_world (str ''/m/b.MP3'')) \<in> media_extensions"
    by simp_all
  from t4 [rule_format, OF i(1)] n(1) e(1)
  have c1: "count_list cands (str ''/work/c.mkv'') = 1"
    unfolding w by simp
  from t4 [rule_format, OF i(2)] n(2) e(2)
  have a1: "count_list cands (str ''/m/a.mp4'') = 1"
    unfolding w by simp
  show ?thesis
    using i(1) n(1) w(1) e(1) b b2 r a1 c1 b1 unfolding inputs_def cands_def
    by (intro conjI)
qed

text \<open>
  The claim as it stands fails on a file of the working directory whose name has the form
  of a drive path: named once by that name and once by its absolute path, the one file is
  listed twice, the first time under a text that is not an absolute path.
\<close>

theorem drive_path_listed_twice:
  "resolveCandidates demo_world drive_file_on_disk [drive_name, str ''/work/'' @ drive_name]
     = [drive_name, str ''/work/'' @ drive_name]
   \<and> locate demo_world drive_name = str ''/work/'' @ drive_name
   \<and> locate demo_world (str ''/work/'' @ drive_name) = str ''/work/'' @ drive_name
   \<and> drive_name \<noteq> str ''/work/'' @ drive_name"
  by (simp add: drive_name_def drive_file_on_disk_def resolveCandidates_def
      isWindowsAbsolute_def existsSync_def locate_def isFile_def isGlob_def isMediaLike_def
      VIDEO_EXTS_def AUDIO_EXTS_def demo_paths str_def Let_def)
subsection \<open>Skipping existing outputs\<close>

lemma existsSync_mkdirSync: "existsSync W fsys p \<Longrightarrow> existsSync W (mkdirSync W fsys d) p"
  by (auto simp: existsSync_def mkdirSync_def)

lemma convertTask_skip:
  assumes "overwrite opts \<noteq> Some True" and "existsSync W (fs st) (taskOut W opts input)"
  shows "\<exists>st'. convertTask W opts useBars trimR n input st = Some (skipped W opts input, st')
           \<and> calls st' = calls st \<and> events st' = events st \<and> idxCounter st' = idxCounter st
           \<and> files (fs st') = files (fs st) \<and> dirs (fs st) \<subseteq> dirs (fs st')"
proof (cases "dryRun opts = Some True")
  case True
  then show ?thesis using assms
    by (simp add: convertTask_def Let_def skipped_def)
next
  case False
  have "existsSync W (mkdirSync W (fs st) (taskOutDir W opts input)) (taskOut W opts input)"
    using assms(2) by (rule existsSync_mkdirSync)
  then show ?thesis using assms(1) False
    by (auto simp: convertTask_def Let_def skipped_def mkdirSync_def)
qed

lemma runTasks_skip:
  assumes "overwrite opts \<noteq> Some True"
  shows "\<forall>c \<in> set cs. existsSync W (fs st) (taskOut W opts c) \<Longrightarrow>
         \<exists>st'. runTasks W opts useBars trimR n cs st = Some (map (skipped W opts) cs, st')
           \<and> calls st' = calls st \<and> events st' = events st \<and> idxCounter st' = idxCounter st
           \<and> files (fs st') = files (fs st) \<and> dirs (fs st) \<subseteq> dirs (fs st')"
proof (induction cs arbitrary: st)
  case Nil
  then show ?case by simp
next
  case (Cons c cs)
  then have "existsSync W (fs st) (taskOut W opts c)" by simp
  from convertTask_skip [OF assms this, where useBars = useBars and trimR = trimR and n = n]
  obtain st1 where s1: "convertTask W opts useBars trimR n c st = Some (skipped W opts c, st1)"
    "calls st1 = calls st" "events st1 = events st" "idxCounter st1 = idxCounter st"
    "files (fs st1) = files (fs st)" "dirs (fs st) \<subseteq> dirs (fs st1)"
    by blast
  have "\<forall>c \<in> set cs. existsSync W (fs st1) (taskOut W opts c)"
    using Cons.prems s1(5,6) by (auto simp: existsSync_def)
  from Cons.IH [OF this]
  obtain st2 where s2: "runTasks W opts useBars trimR n cs st1 = Some (map (skipped W opts) cs, st2)"
    "calls st2 = calls st1" "events st2 = events st1" "idxCounter st2 = idxCounter st1"
    "files (fs st2) = files (fs st1)" "dirs (fs st1) \<subseteq> dirs (fs st2)"
    by blast
  show ?case
    using s1 s2 by (intro exI [of _ st2]) auto
qed

text \<open>
  C3 (as amended). When overwrite is not set and the computed output of a task exists, the task is an
  immediate success and no engine call is made: no probe, no cover extraction, no encode.
  So a run of a request without overwrite that finds the output of every candidate in
  place (the second of two runs of the same request) reports every task successful by the
  skip path, and leaves the content and the modification time of every file as they were.
\<close>

theorem skip_when_output_exists:
  assumes "overwrite opts \<noteq> Some True"
    and "\<forall>c \<in> set cs. existsSync W (fs st) (taskOut W opts c)"
  shows "\<exists>st'. runTasks W opts useBars trimR n cs st
                  = Some (map (\<lambda>c. \<lparr>res_input = c, res_output = Some (taskOut W opts c),
                                     res_ok = True, res_error = None\<rparr>) cs, st')
           \<and> calls st' = calls st \<and> events st' = events st
           \<and> files (fs st') = files (fs st)"
proof -
  from runTasks_skip [OF assms(1), where cs = cs and st = st and W = W and useBars = useBars
         and trimR = trimR and n = n] assms(2)
  obtain st' where "runTasks W opts useBars trimR n cs st = Some (map (skipped W opts) cs, st')"
    "calls st' = calls st" "events st' = events st" "files (fs st') = files (fs st)"
    by blast
  moreover have "skipped W opts = (\<lambda>c. \<lparr>res_input = c, res_output = Some (taskOut W opts c),
                                     res_ok = True, res_error = None\<rparr>)"
    by (rule ext) (simp add: skipped_def)
  ultimately show ?thesis by auto
qed

theorem skip_when_output_exists_witness:
  "overwrite demo_opts \<noteq> Some True
   \<and> existsSync demo_world (fs (demo_state [str ''/in/song.mp4'' \<mapsto> demo_video,
                                   str ''/out/song.mp3'' \<mapsto> demo_audio]))
         (taskOut demo_world demo_opts (str ''/in/song.mp4''))
   \<and> (\<exists>st'. runTasks demo_world demo_opts False \<lparr>trim_start = None, trim_end = None\<rparr> 1
               [str ''/in/song.mp4'']
               (demo_state [str ''/in/song.mp4'' \<mapsto> demo_video,
                            str ''/out/song.mp3'' \<mapsto> demo_audio])
             = Some ([\<lparr>res_input = str ''/in/song.mp4'', res_output = Some (str ''/out/song.mp3''),
                       res_ok = True, res_error = None\<rparr>], st')
           \<and> calls st' = [] \<and> events st' = []
           \<and> files (fs st') = [str ''/in/song.mp4'' \<mapsto> demo_video,
                                str ''/out/song.mp3'' \<mapsto> demo_audio])"
proof -
  define st where "st = demo_state [str ''/in/song.mp4'' \<mapsto> demo_video,
                                    str ''/out/song.mp3'' \<mapsto> demo_audio]"
  have o: "overwrite demo_opts \<noteq> Some True" by (simp add: demo_opts_def)
  have "existsSync demo_world (fs st) (str ''/out/song.mp3'')"
    by (simp add: st_def demo_state_def existsSync_def locate_def demo_paths str_def)
  then have x: "\<forall>c \<in> set [str ''/in/song.mp4''].
             existsSync demo_world (fs st) (taskOut demo_world demo_opts c)"
    by (simp add: demo_out)
  have s: "calls st = []" "events st = []"
    "files (fs st) = [str ''/in/song.mp4'' \<mapsto> demo_video, str ''/out/song.mp3'' \<mapsto> demo_audio]"
    by (simp_all add: st_def demo_state_def)
  from skip_when_output_exists [OF o x, where useBars = False
         and trimR = "\<lparr>trim_start = None, trim_end = None\<rparr>" and n = 1]
  show ?thesis
    using o x unfolding s by (simp add: st_def [symmetric] demo_out)
qed

text \<open>
  Two runs of the same request do not always end in the skip path: when the encoding of
  the first run fails, no output is written, and the second run attempts the task again
  and reports the failure again.
\<close>

theorem second_run_after_failure_not_skipped:
  "overwrite demo_opts = None
   \<and> map_option fst
       (case convertPaths failing_world [str ''/in/song.mp4''] demo_opts
               (demo_state [str ''/in/song.mp4'' \<mapsto> demo_video]) of
          None \<Rightarrow> None
        | Some (results1, st1) \<Rightarrow>
            convertPaths failing_world [str ''/in/song.mp4''] demo_opts st1)
     = Some (Inr [\<lparr>res_input = str ''/in/song.mp4'', res_output = Some (str ''/out/song.mp3''),
                   res_ok = False,
                   res_error = Some (str ''FFmpeg error: Conversion failed!. Input: /in/song.mp4, Output: /out/song.mp3'')\<rparr>])"
proof -
  define st where "st = demo_state [str ''/in/song.mp4'' \<mapsto> demo_video]"
  have "files (fs st) (str ''/in/song.mp4'') = Some demo_video"
    and "files (fs st) (str ''/out/song.mp3'') = None"
    and "str ''/out/song.mp3'' \<notin> dirs (fs st)"
    by (simp_all add: st_def demo_state_def str_def)
  from failing_run [OF this] obtain r1 st1 where
    r1: "convertPaths failing_world [str ''/in/song.mp4''] demo_opts st = Some (r1, st1)"
    and s1: "files (fs st1) (str ''/in/song.mp4'') = Some demo_video"
      "files (fs st1) (str ''/out/song.mp3'') = None"
      "str ''/out/song.mp3'' \<notin> dirs (fs st1)"
    by blast
  from failing_run [OF s1] obtain st2 where
    "convertPaths failing_world [str ''/in/song.mp4''] demo_opts st1
      = Some (Inr [\<lparr>res_input = str ''/in/song.mp4'', res_output = Some (str ''/out/song.mp3''),
                 res_ok = False,
                 res_error = Some (str ''FFmpeg error: Conversion failed!. Input: /in/song.mp4, Output: /out/song.mp3'')\<rparr>],
              st2)"
    by blast
  then show ?thesis
    using r1 unfolding st_def by (simp add: demo_opts_def)
qed


subsection \<open>The events of a task\<close>

lemma map_option_pairE:
  assumes "map_option (\<lambda>(r, s). f r s) x = Some y"
  obtains r s where "x = Some (r, s)" and "f r s = y"
  using assms by (cases x) auto

text \<open>
  C1 requires of every task exactly one done event and progress percentages within
  [1,99]. With the three callbacks supplied, a task whose output exists returns before
  any callback is called, so its event sequence is empty: no done event. A task that
  encodes hands the percentages 0 and 100 of the engine to the progress callback as they
  are; only the progress bar clamps them.
\<close>

theorem skipped_task_emits_no_done:
  "map_option (\<lambda>(r, s). (r, events s))
     (convertPaths demo_world [str ''/in/song.mp4''] demo_opts
        (demo_state [str ''/in/song.mp4'' \<mapsto> demo_video, str ''/out/song.mp3'' \<mapsto> demo_audio]))
   = Some (Inr [\<lparr>res_input = str ''/in/song.mp4'', res_output = Some (str ''/out/song.mp3''),
                 res_ok = True, res_error = None\<rparr>], [])
   \<and> map_option (\<lambda>(r, s). events s)
     (convertPaths demo_world [str ''/in/song.mp4''] demo_opts
        (demo_state [str ''/in/song.mp4'' \<mapsto> demo_video]))
   = Some [FileStart (str ''/in/song.mp4'') 0 1 (str ''/out/song.mp3''),
           FileProgress (str ''/in/song.mp4'') 0,
           FileProgress (str ''/in/song.mp4'') 50,
           FileProgress (str ''/in/song.mp4'') 100,
           FileDone (str ''/in/song.mp4'') (str ''/out/song.mp3'') True None]"
proof
  define st where "st = demo_state [str ''/in/song.mp4'' \<mapsto> demo_video,
                                    str ''/out/song.mp3'' \<mapsto> demo_audio]"
  have c: "resolveCandidates demo_world (fs st) [str ''/in/song.mp4''] = [str ''/in/song.mp4'']"
    unfolding st_def by (rule demo_candidates) (simp add: demo_state_files str_def)
  have p: "convertPaths demo_world [str ''/in/song.mp4''] demo_opts st
           = map_option (\<lambda>(r, s). (Inr [r], s))
               (convertTask demo_world demo_opts False \<lparr>trim_start = None, trim_end = None\<rparr> 1
                  (str ''/in/song.mp4'') st)"
    by (rule convertPaths_single [OF c]) (simp_all add: demo_opts_def)
  from demo_task_skip obtain r s where
    "convertTask demo_world demo_opts False \<lparr>trim_start = None, trim_end = None\<rparr> 1
       (str ''/in/song.mp4'') st = Some (r, s)"
    and "(r, events s, calls s)
       = (\<lparr>res_input = str ''/in/song.mp4'', res_output = Some (str ''/out/song.mp3''),
            res_ok = True, res_error = None\<rparr>, [], [])"
    unfolding st_def by (rule map_option_pairE)
  then show "map_option (\<lambda>(r, s). (r, events s))
     (convertPaths demo_world [str ''/in/song.mp4''] demo_opts
        (demo_state [str ''/in/song.mp4'' \<mapsto> demo_video, str ''/out/song.mp3'' \<mapsto> demo_audio]))
   = Some (Inr [\<lparr>res_input = str ''/in/song.mp4'', res_output = Some (str ''/out/song.mp3''),
                 res_ok = True, res_error = None\<rparr>], [])"
    using p unfolding st_def by simp
next
  define st where "st = demo_state [str ''/in/song.mp4'' \<mapsto> demo_video]"
  have c: "resolveCandidates demo_world (fs st) [str ''/in/song.mp4''] = [str ''/in/song.mp4'']"
    unfolding st_def by (rule demo_candidates) (simp add: demo_state_files str_def)
  have p: "convertPaths demo_world [str ''/in/song.mp4''] demo_opts st
           = map_option (\<lambda>(r, s). (Inr [r], s))
               (convertTask demo_world demo_opts False \<lparr>trim_start = None, trim_end = None\<rparr> 1
                  (str ''/in/song.mp4'') st)"
    by (rule convertPaths_single [OF c]) (simp_all add: demo_opts_def)
  from demo_task_success obtain r s where
    "convertTask demo_world demo_opts False \<lparr>trim_start = None, trim_end = None\<rparr> 1
       (str ''/in/song.mp4'') st = Some (r, s)"
    and "(r, events s, files (fs s) (str ''/out/.tf-a1b2c3d4e5f6.cover.jpg''))
       = (\<lparr>res_input = str ''/in/song.mp4'', res_output = Some (str ''/out/song.mp3''),
            res_ok = True, res_error = None\<rparr>,
           [FileStart (str ''/in/song.mp4'') 0 1 (str ''/out/song.mp3''),
            FileProgress (str ''/in/song.mp4'') 0,
            FileProgress (str ''/in/song.mp4'') 50,
            FileProgress (str ''/in/song.mp4'') 100,
            FileDone (str ''/in/song.mp4'') (str ''/out/song.mp3'') True None],
           None)"
    unfolding st_def by (rule map_option_pairE)
  then show "map_option (\<lambda>(r, s). events s)
     (convertPaths demo_world [str ''/in/song.mp4''] demo_opts
        (demo_state [str ''/in/song.mp4'' \<mapsto> demo_video]))
   = Some [FileStart (str ''/in/song.mp4'') 0 1 (str ''/out/song.mp3''),
           FileProgress (str ''/in/song.mp4'') 0,
           FileProgress (str ''/in/song.mp4'') 50,
           FileProgress (str ''/in/song.mp4'') 100,
           FileDone (str ''/in/song.mp4'') (str ''/out/song.mp3'') True None]"
    using p unfolding st_def by simp
qed

subsection \<open>The temporary cover\<close>

text \<open>
  C2 requires the temporary cover to be deleted when the task fails as when it succeeds.
  In a run whose encoding fails, the extracted cover is still on disk after the task has
  reported its failure; in the same run with a working engine it is gone.
\<close>

theorem temp_cover_left_after_failure:
  "map_option (\<lambda>(r, s). (r, files (fs s) (str ''/out/.tf-a1b2c3d4e5f6.cover.jpg'')))
     (convertPaths failing_world [str ''/in/song.mp4''] demo_opts
        (demo_state [str ''/in/song.mp4'' \<mapsto> demo_video]))
   = Some (Inr [\<lparr>res_input = str ''/in/song.mp4'', res_output = Some (str ''/out/song.mp3''),
                 res_ok = False,
                 res_error = Some (str ''FFmpeg error: Conversion failed!. Input: /in/song.mp4, Output: /out/song.mp3'')\<rparr>],
           Some demo_picture)
   \<and> map_option (\<lambda>(r, s). (r, files (fs s) (str ''/out/.tf-a1b2c3d4e5f6.cover.jpg'')))
     (convertPaths demo_world [str ''/in/song.mp4''] demo_opts
        (demo_state [str ''/in/song.mp4'' \<mapsto> demo_video]))
   = Some (Inr [\<lparr>res_input = str ''/in/song.mp4'', res_output = Some (str ''/out/song.mp3''),
                 res_ok = True, res_error = None\<rparr>],
           None)"
proof
  define st where "st = demo_state [str ''/in/song.mp4'' \<mapsto> demo_video]"
  have "files (fs st) (str ''/in/song.mp4'') = Some demo_video"
    and "files (fs st) (str ''/out/song.mp3'') = None"
    and "str ''/out/song.mp3'' \<notin> dirs (fs st)"
    by (simp_all add: st_def demo_state_def str_def)
  from failing_run [OF this]
  show "map_option (\<lambda>(r, s). (r, files (fs s) (str ''/out/.tf-a1b2c3d4e5f6.cover.jpg'')))
     (convertPaths failing_world [str ''/in/song.mp4''] demo_opts
        (demo_state [str ''/in/song.mp4'' \<mapsto> demo_video]))
   = Some (Inr [\<lparr>res_input = str ''/in/song.mp4'', res_output = Some (str ''/out/song.mp3''),
                 res_ok = False,
                 res_error = Some (str ''FFmpeg error: Conversion failed!. Input: /in/song.mp4, Output: /out/song.mp3'')\<rparr>],
           Some demo_picture)"
    unfolding st_def by auto
next
  define st where "st = demo_state [str ''/in/song.mp4'' \<mapsto> demo_video]"
  have c: "resolveCandidates demo_world (fs st) [str ''/in/song.mp4''] = [str ''/in/song.mp4'']"
    unfolding st_def by (rule demo_candidates) (simp add: demo_state_files str_def)
  have p: "convertPaths demo_world [str ''/in/song.mp4''] demo_opts st
           = map_option (\<lambda>(r, s). (Inr [r], s))
               (convertTask demo_world demo_opts False \<lparr>trim_start = None, trim_end = None\<rparr> 1
                  (str ''/in/song.mp4'') st)"
    by (rule convertPaths_single [OF c]) (simp_all add: demo_opts_def)
  from demo_task_success obtain r s where
    "convertTask demo_world demo_opts False \<lparr>trim_start = None, trim_end = None\<rparr> 1
       (str ''/in/song.mp4'') st = Some (r, s)"
    and "(r, events s, files (fs s) (str ''/out/.tf-a1b2c3d4e5f6.cover.jpg''))
       = (\<lparr>res_input = str ''/in/song.mp4'', res_output = Some (str ''/out/song.mp3''),
            res_ok = True, res_error = None\<rparr>,
           [FileStart (str ''/in/song.mp4'') 0 1 (str ''/out/song.mp3''),
            FileProgress (str ''/in/song.mp4'') 0,
            FileProgress (str ''/in/song.mp4'') 50,
            FileProgress (str ''/in/song.mp4'') 100,
            FileDone (str ''/in/song.mp4'') (str ''/out/song.mp3'') True None],
           None)"
    unfolding st_def by (rule map_option_pairE)
  then show "map_option (\<lambda>(r, s). (r, files (fs s) (str ''/out/.tf-a1b2c3d4e5f6.cover.jpg'')))
     (convertPaths demo_world [str ''/in/song.mp4''] demo_opts
        (demo_state [str ''/in/song.mp4'' \<mapsto> demo_video]))
   = Some (Inr [\<lparr>res_input = str ''/in/song.mp4'', res_output = Some (str ''/out/song.mp3''),
                 res_ok = True, res_error = None\<rparr>],
           None)"
    using p unfolding st_def by simp
qed

subsection \<open>Trim range\<close>

lemmas number_eval = js_Number_def unsigned_decimal_def exponent_part_def radix_of_def
  digit_value_def is_digit_def js_trim_def is_space_def str_def Let_def isNaN_def truthy_def
  parseTrim_def component_def non_numeric_def trimError_def to_double_numeral

lemma split_char_nonempty: "split_char c s \<noteq> []"
  by (induction s) (auto split: list.splits)

lemma parseTrim_rejects:
  assumes "non_numeric (component t 0) \<or> non_numeric (component t 1)"
  shows "parseTrim (Some t) = Inl trimError"
proof -
  have ne: "t \<noteq> []"
    using assms by (auto simp: non_numeric_def component_def split: if_splits)
  obtain x xs where p: "split_char 45 t = x # xs"
    using split_char_nonempty [of 45 t] by (cases "split_char 45 t") auto
  show ?thesis
  proof (cases xs)
    case Nil
    then show ?thesis using assms ne p
      by (auto simp: parseTrim_def truthy_def non_numeric_def component_def isNaN_def
          trimError_def Let_def)
  next
    case (Cons y ys)
    then show ?thesis using assms ne p
      by (auto simp: parseTrim_def truthy_def non_numeric_def component_def isNaN_def
          trimError_def Let_def)
  qed
qed

lemma convertPaths_rejects:
  "parseTrim (trim opts) = Inl e \<Longrightarrow> resolveCandidates W (fs st) inputs \<noteq> [] \<Longrightarrow>
     convertPaths W inputs opts st = Some (Inl e, st)"
  by (simp add: convertPaths_def Let_def)

lemma parseTrim_examples:
  "parseTrim (Some (str ''5-65'')) = Inr \<lparr>trim_start = Some (Num 5), trim_end = Some (Num 65)\<rparr>"
  "parseTrim (Some (str ''5'')) = Inr \<lparr>trim_start = Some (Num 5), trim_end = None\<rparr>"
  "parseTrim (Some (str ''5-6-abc'')) = Inr \<lparr>trim_start = Some (Num 5), trim_end = Some (Num 6)\<rparr>"
  by (simp_all add: number_eval)

lemma non_numeric_examples:
  "non_numeric (component (str ''abc'') 0)"
  "non_numeric (component (str ''5-abc'') 1)"
  "non_numeric (component (str ''5-6-abc'') 2)"
  by (simp_all add: number_eval)

text \<open>
  C6 (as amended). \<open>5-65\<close> parses to start 5 and end 65, and the command is built with
  duration 60; \<open>5\<close> parses to start 5 with no end. A trim string whose first or second
  component is non-numeric makes \<open>parseTrim\<close> throw, and a run that has resolved at least
  one candidate rejects with that error before any task exists: the state is untouched.
  A run that resolves no candidate returns the empty result, whatever the trim string.
\<close>

theorem parseTrim_checked:
  "parseTrim (Some (str ''5-65'')) = Inr \<lparr>trim_start = Some (Num 5), trim_end = Some (Num 65)\<rparr>
   \<and> cmd_duration (buildBase W input
        (mo\<lparr>o_trim := Some \<lparr>trim_start = Some (Num 5), trim_end = Some (Num 65)\<rparr>\<rparr>))
       = Some (Num 60)
   \<and> parseTrim (Some (str ''5'')) = Inr \<lparr>trim_start = Some (Num 5), trim_end = None\<rparr>
   \<and> (non_numeric (component t 0) \<or> non_numeric (component t 1) \<longrightarrow>
        parseTrim (Some t) = Inl trimError
        \<and> (trim opts = Some t \<and> resolveCandidates W (fs st) inputs \<noteq> [] \<longrightarrow>
             convertPaths W inputs opts st = Some (Inl trimError, st)))
   \<and> (resolveCandidates W (fs st) inputs = [] \<longrightarrow>
        convertPaths W inputs opts st = Some (Inr [], st))"
proof (intro conjI impI)
  assume "resolveCandidates W (fs st) inputs = []"
  then show "convertPaths W inputs opts st = Some (Inr [], st)"
    by (simp add: convertPaths_def Let_def)
next
  show "cmd_duration (buildBase W input
        (mo\<lparr>o_trim := Some \<lparr>trim_start = Some (Num 5), trim_end = Some (Num 65)\<rparr>\<rparr>))
       = Some (Num 60)"
    by (simp add: buildBase_def Let_def to_double_numeral)
next
  assume "non_numeric (component t 0) \<or> non_numeric (component t 1)"
  then show "parseTrim (Some t) = Inl trimError" by (rule parseTrim_rejects)
next
  assume n: "non_numeric (component t 0) \<or> non_numeric (component t 1)"
    and o: "trim opts = Some t \<and> resolveCandidates W (fs st) inputs \<noteq> []"
  from n have "parseTrim (trim opts) = Inl trimError"
    using o parseTrim_rejects by simp
  then show "convertPaths W inputs opts st = Some (Inl trimError, st)"
    using o by (simp add: convertPaths_rejects)
qed (simp_all add: parseTrim_examples)

lemma no_media_candidates:
  "resolveCandidates demo_world (fs (demo_state [str ''/in/notes.txt'' \<mapsto> demo_video]))
     [str ''/in/notes.txt''] = []"
  by (simp add: resolveCandidates_def demo_state_def isWindowsAbsolute_def existsSync_def
      locate_def isFile_def isMediaLike_def VIDEO_EXTS_def AUDIO_EXTS_def demo_paths str_def Let_def)

theorem parseTrim_checked_witness:
  "non_numeric (component (str ''5-abc'') 1)
   \<and> parseTrim (Some (str ''5-abc'')) = Inl trimError
   \<and> resolveCandidates demo_world (fs (demo_state [str ''/in/song.mp4'' \<mapsto> demo_video]))
        [str ''/in/song.mp4''] \<noteq> []
   \<and> convertPaths demo_world [str ''/in/song.mp4''] (demo_opts\<lparr>trim := Some (str ''5-abc'')\<rparr>)
        (demo_state [str ''/in/song.mp4'' \<mapsto> demo_video])
      = Some (Inl trimError, demo_state [str ''/in/song.mp4'' \<mapsto> demo_video])
   \<and> resolveCandidates demo_world (fs (demo_state [str ''/in/notes.txt'' \<mapsto> demo_video]))
        [str ''/in/notes.txt''] = []
   \<and> convertPaths demo_world [str ''/in/notes.txt''] (demo_opts\<lparr>trim := Some (str ''5-abc'')\<rparr>)
        (demo_state [str ''/in/notes.txt'' \<mapsto> demo_video])
      = Some (Inr [], demo_state [str ''/in/notes.txt'' \<mapsto> demo_video])"
proof -
  have c: "resolveCandidates demo_world (fs (demo_state [str ''/in/song.mp4'' \<mapsto> demo_video]))
        [str ''/in/song.mp4''] = [str ''/in/song.mp4'']"
    by (rule demo_candidates) (simp add: demo_state_files)
  have t: "trim (demo_opts\<lparr>trim := Some (str ''5-abc'')\<rparr>) = Some (str ''5-abc'')"
    by simp
  from parseTrim_checked [where t = "str ''5-abc''"
         and opts = "demo_opts\<lparr>trim := Some (str ''5-abc'')\<rparr>" and W = demo_world
         and st = "demo_state [str ''/in/song.mp4'' \<mapsto> demo_video]"
         and inputs = "[str ''/in/song.mp4'']"]
  have a: "parseTrim (Some (str ''5-abc'')) = Inl trimError"
    "convertPaths demo_world [str ''/in/song.mp4''] (demo_opts\<lparr>trim := Some (str ''5-abc'')\<rparr>)
        (demo_state [str ''/in/song.mp4'' \<mapsto> demo_video])
      = Some (Inl trimError, demo_state [str ''/in/song.mp4'' \<mapsto> demo_video])"
    using non_numeric_examples(2) c t by simp_all
  from parseTrim_checked [where t = "str ''5-abc''"
         and opts = "demo_opts\<lparr>trim := Some (str ''5-abc'')\<rparr>" and W = demo_world
         and st = "demo_state [str ''/in/notes.txt'' \<mapsto> demo_video]"
         and inputs = "[str ''/in/notes.txt'']"]
  have b: "convertPaths demo_world [str ''/in/notes.txt''] (demo_opts\<lparr>trim := Some (str ''5-abc'')\<rparr>)
        (demo_state [str ''/in/notes.txt'' \<mapsto> demo_video])
      = Some (Inr [], demo_state [str ''/in/notes.txt'' \<mapsto> demo_video])"
    using no_media_candidates by simp
  show ?thesis
    using non_numeric_examples(2) a b c no_media_candidates by simp
qed

text \<open>
  Without these conditions the rejection does not hold. A run that resolves no candidate
  returns the empty result before the trim string is looked at, so \<open>abc\<close> raises nothing
  there; and only the first two components are read, so \<open>5-6-abc\<close> parses to start 5 and
  end 6.
\<close>

theorem malformed_trim_accepted:
  "non_numeric (component (str ''abc'') 0)
   \<and> convertPaths demo_world [str ''/in/notes.txt''] (demo_opts\<lparr>trim := Some (str ''abc'')\<rparr>)
        (demo_state [str ''/in/notes.txt'' \<mapsto> demo_video])
      = Some (Inr [], demo_state [str ''/in/notes.txt'' \<mapsto> demo_video])
   \<and> non_numeric (component (str ''5-6-abc'') 2)
   \<and> parseTrim (Some (str ''5-6-abc''))
      = Inr \<lparr>trim_start = Some (Num 5), trim_end = Some (Num 6)\<rparr>"
proof -
  have "convertPaths demo_world [str ''/in/notes.txt'']
        (demo_opts\<lparr>trim := Some (str ''abc'')\<rparr>)
        (demo_state [str ''/in/notes.txt'' \<mapsto> demo_video])
      = Some (Inr [], demo_state [str ''/in/notes.txt'' \<mapsto> demo_video])"
    using no_media_candidates by (simp add: convertPaths_def Let_def)
  then show ?thesis
    using non_numeric_examples(1,3) parseTrim_examples(3) by simp
qed

subsection \<open>Loudness fallback\<close>

lemma buildBase_filters: "cmd_audioFilters (buildBase W input opts) = []"
  by (simp add: buildBase_def Let_def ffmpeg_def)

lemma toMp3_command_filters:
  "cmd_audioFilters (toMp3_command W opts p)
     = (if o_loudnorm opts = Some True
        then [loudnormFilter (case p of Some l \<Rightarrow> l | None \<Rightarrow> Map.empty)] else [])"
  by (simp add: toMp3_command_def buildBase_filters Let_def split: option.splits prod.splits)

lemma loudnormFilter_empty:
  "loudnormFilter Map.empty
     = str ''loudnorm=I=-16:TP=-1.5:LRA=11:measured_I=-16:measured_TP=-1.5:measured_LRA=11:measured_thresh=-26:linear=true:print_format=summary''"
  by (simp add: loudnormFilter_def nullish_def str_def)

lemma loudnessStats_unparseable:
  assumes "indexOf 123 json = None \<or> lastIndexOf 125 json = None
           \<or> JSON_parse W (slice json (the (indexOf 123 json)) (the (lastIndexOf 125 json) + 1))
               = None"
  shows "loudnessStats W json = Map.empty"
  using assms by (auto simp: loudnessStats_def split: option.splits)

text \<open>
  C7. When the measuring pass ends and its output holds no statistics that can be parsed
  (no opening brace, no closing brace, or text between them that \<^verbatim>\<open>JSON.parse\<close> rejects),
  \<open>measureLoudness\<close> resolves with the empty object, and \<open>toMp3\<close> goes on to the encoding run
  with the filter built from the fallback values \<open>-16\<close>, \<open>-1.5\<close>, \<open>11\<close> and \<open>-26\<close>, in linear
  mode.
\<close>

theorem loudness_fallback:
  assumes "loudnessPass W (o_input opts) tick fsys = (lines, None)"
    and "json = concat (map (\<lambda>line. line @ [10]) lines)"
    and "indexOf 123 json = None \<or> lastIndexOf 125 json = None
         \<or> JSON_parse W (slice json (the (indexOf 123 json)) (the (lastIndexOf 125 json) + 1))
             = None"
    and "o_loudnorm opts = Some True"
    and "checkInput W fsys (o_input opts) = None"
  shows "measureLoudness W (o_input opts) tick fsys = Inr Map.empty
       \<and> snd (snd (snd (toMp3 W opts tick fsys)))
           = [MeasureLoudness (o_input opts), Encode (toMp3_command W opts (Some Map.empty))]
       \<and> cmd_audioFilters (toMp3_command W opts (Some Map.empty))
           = [str ''loudnorm=I=-16:TP=-1.5:LRA=11:measured_I=-16:measured_TP=-1.5:measured_LRA=11:measured_thresh=-26:linear=true:print_format=summary'']"
proof -
  have m: "measureLoudness W (o_input opts) tick fsys = Inr Map.empty"
    using assms(1) loudnessStats_unparseable [OF assms(3)]
    by (simp add: measureLoudness_def assms(2))
  have "snd (snd (snd (toMp3 W opts tick fsys)))
           = [MeasureLoudness (o_input opts), Encode (toMp3_command W opts (Some Map.empty))]"
    using m assms(4,5) by (simp add: toMp3_def Let_def)
  moreover have "cmd_audioFilters (toMp3_command W opts (Some Map.empty))
           = [str ''loudnorm=I=-16:TP=-1.5:LRA=11:measured_I=-16:measured_TP=-1.5:measured_LRA=11:measured_thresh=-26:linear=true:print_format=summary'']"
    using assms(4) by (simp add: toMp3_command_filters loudnormFilter_empty)
  ultimately show ?thesis using m by simp
qed

text \<open>A measuring pass whose output holds no report at all.\<close>

theorem loudness_fallback_witness:
  "measureLoudness
     (demo_world\<lparr>loudnessPass := (\<lambda>input tick fsys. ([str ''size=N/A time=00:00:10.00''], None))\<rparr>)
     (str ''/in/song.mp4'') 0 (fs (demo_state [str ''/in/song.mp4'' \<mapsto> demo_video]))
     = Inr Map.empty
   \<and> cmd_audioFilters
       (toMp3_command
          (demo_world\<lparr>loudnessPass := (\<lambda>input tick fsys. ([str ''size=N/A time=00:00:10.00''], None))\<rparr>)
          \<lparr>o_input = str ''/in/song.mp4'', o_output = str ''/out/song.mp3'',
           o_bitrateKbps = None, o_vbrLevel = None, o_sampleRate = None, o_channels = None,
           o_loudnorm = Some True, o_trim = None, o_metadata = None, o_threads = None\<rparr>
          (Some Map.empty))
     = [str ''loudnorm=I=-16:TP=-1.5:LRA=11:measured_I=-16:measured_TP=-1.5:measured_LRA=11:measured_thresh=-26:linear=true:print_format=summary'']"
proof -
  define W where "W = demo_world\<lparr>loudnessPass :=
    (\<lambda>input tick fsys. ([str ''size=N/A time=00:00:10.00''], None))\<rparr>"
  define opts where "opts = \<lparr>o_input = str ''/in/song.mp4'', o_output = str ''/out/song.mp3'',
           o_bitrateKbps = None, o_vbrLevel = None, o_sampleRate = None, o_channels = None,
           o_loudnorm = Some True, o_trim = None, o_metadata = None, o_threads = None\<rparr>"
  define fsys where "fsys = fs (demo_state [str ''/in/song.mp4'' \<mapsto> demo_video])"
  define json where "json = concat (map (\<lambda>line. line @ [10]) [str ''size=N/A time=00:00:10.00''])"
  have i: "o_input opts = str ''/in/song.mp4''" by (simp add: opts_def)
  have a1: "loudnessPass W (o_input opts) 0 fsys = ([str ''size=N/A time=00:00:10.00''], None)"
    by (simp add: W_def)
  have a3: "indexOf 123 json = None \<or> lastIndexOf 125 json = None
         \<or> JSON_parse W (slice json (the (indexOf 123 json)) (the (lastIndexOf 125 json) + 1))
             = None"
    by (simp add: json_def indexOf_def str_def)
  have a4: "o_loudnorm opts = Some True" by (simp add: opts_def)
  have a5: "checkInput W fsys (o_input opts) = None"
    by (simp add: checkInput_def fsys_def demo_state_def existsSync_def locate_def opts_def
        demo_video_def W_def demo_paths str_def)
  from loudness_fallback [OF a1 json_def a3 a4 a5]
  show ?thesis
    unfolding i unfolding W_def opts_def fsys_def by simp
qed

end
